theory Spec2Isabelle
  imports Main
begin

text \<open>
  The feedback path of app.py: the language-model client \<open>call_gemini_api\<close>, the two
  composers \<open>generate_word_hints_text\<close> and \<open>analyze_user_sentence_text\<close>, and the
  handler \<open>get_ai_feedback\<close> of \<open>POST /api/ai_feedback\<close>. The page routes only render
  templates, and photo.py is a stand-alone image script; neither is modelled.

  The world outside the process is a parameter: the credential \<open>API_KEY\<close>, the network
  (what each POST does), and what reading the level file does. The POSTs made are threaded
  through as a list, so that "no call is made" is "the list is unchanged".
\<close>

section \<open>Python values used by app.py\<close>

text \<open>
  A Python \<open>str\<close> is a sequence of Unicode code points; it is modelled as the list of
  its code points, so that \<open>strip\<close> and the literals of the source (which are mostly
  Chinese) are what Python sees. \<open>ascii\<close> writes the ASCII part of a literal readably.
\<close>

type_synonym pystr = "nat list"

definition ascii :: "string \<Rightarrow> pystr" where
  "ascii s = map of_char s"

text \<open>
  \<open>str.isspace\<close> for one code point: the characters CPython's \<open>str.strip()\<close> removes
  (U+0009..U+000D, U+001C..U+0020, U+0085, U+00A0, U+1680, U+2000..U+200A, U+2028,
  U+2029, U+202F, U+205F, U+3000).
\<close>

definition py_isspace :: "nat \<Rightarrow> bool" where
  "py_isspace c \<longleftrightarrow>
     (if c \<le> 32 then (9 \<le> c \<and> c \<le> 13) \<or> 28 \<le> c
      else c = 133 \<or> c = 160 \<or> c = 5760 \<or> (8192 \<le> c \<and> c \<le> 8202) \<or>
           c = 8232 \<or> c = 8233 \<or> c = 8239 \<or> c = 8287 \<or> c = 12288)"

text \<open>\<open>s.strip()\<close>: leading and trailing whitespace removed.\<close>

definition py_strip :: "pystr \<Rightarrow> pystr" where
  "py_strip s = rev (dropWhile py_isspace (rev (dropWhile py_isspace s)))"

text \<open>\<open>sep.join(xs)\<close> for a list of strings.\<close>

fun py_join :: "pystr \<Rightarrow> pystr list \<Rightarrow> pystr" where
  "py_join sep [] = []"
| "py_join sep [x] = x"
| "py_join sep (x # y # ys) = x @ sep @ py_join sep (y # ys)"

text \<open>\<open>str(n)\<close> for an \<open>int\<close>, as an f-string renders it: decimal, with a minus sign.\<close>

fun str_of_nat :: "nat \<Rightarrow> pystr" where
  "str_of_nat n = (if n < 10 then [48 + n] else str_of_nat (n div 10) @ [48 + n mod 10])"

declare str_of_nat.simps [simp del]

definition str_of_int :: "int \<Rightarrow> pystr" where
  "str_of_int i = (if i < 0 then 45 # str_of_nat (nat (- i)) else str_of_nat (nat i))"

text \<open>
  \<open>text.split(sep)\<close> for a separator of two characters \<open>[a, b]\<close> (the blank line
  \<open>"\n\n"\<close> below): the pieces between the occurrences of the separator, scanned from
  the left without overlap. \<open>cur\<close> is the piece being read, reversed.
\<close>

fun py_split2 :: "nat \<Rightarrow> nat \<Rightarrow> pystr \<Rightarrow> pystr \<Rightarrow> pystr list" where
  "py_split2 a b cur [] = [rev cur]"
| "py_split2 a b cur [x] = [rev (x # cur)]"
| "py_split2 a b cur (x # y # zs) =
     (if x = a \<and> y = b then rev cur # py_split2 a b [] zs
      else py_split2 a b (x # cur) (y # zs))"

text \<open>
  \<open>sep in text\<close> for a separator of two characters \<open>[a, b]\<close>: does the text contain
  the separator (for \<open>"\n\n"\<close>, a blank line)?
\<close>

fun py_contains2 :: "nat \<Rightarrow> nat \<Rightarrow> pystr \<Rightarrow> bool" where
  "py_contains2 a b (x # y # zs) = ((x = a \<and> y = b) \<or> py_contains2 a b (y # zs))"
| "py_contains2 a b _ = False"

section \<open>JSON values and the exceptions of the response handling\<close>

text \<open>
  What \<open>response.json()\<close> can return. An object keeps its members in document order;
  a float is kept only as "is it non-zero", which is all the code can observe of it
  (its truth value).
\<close>

datatype json =
    JNull
  | JBool bool
  | JInt int
  | JFloat bool
  | JStr pystr
  | JArr "json list"
  | JObj "(pystr \<times> json) list"

text \<open>
  The exception classes the handlers of \<open>call_gemini_api\<close> and \<open>get_ai_feedback\<close>
  tell apart: \<open>requests.exceptions.HTTPError\<close> (with the status code of its response;
  \<open>raise_for_status\<close> raises it), any other \<open>requests.exceptions.RequestException\<close>,
  and the other subclasses of \<open>Exception\<close>.
\<close>

datatype exn =
    HTTPError int
  | RequestException
  | AttributeError
  | TypeError
  | IndexError
  | KeyError
  | OtherException

text \<open>\<open>d.get(k, default)\<close>: only a dict has \<open>get\<close>; of a repeated key the last member counts.\<close>

fun py_get :: "json \<Rightarrow> pystr \<Rightarrow> json \<Rightarrow> exn + json" where
  "py_get (JObj kvs) k d = Inr (case map_of (rev kvs) k of None \<Rightarrow> d | Some v \<Rightarrow> v)"
| "py_get _ k d = Inl AttributeError"

text \<open>\<open>x[0]\<close>: the first element of a list, the first character of a string.\<close>

fun py_item0 :: "json \<Rightarrow> exn + json" where
  "py_item0 (JArr []) = Inl IndexError"
| "py_item0 (JArr (x # xs)) = Inr x"
| "py_item0 (JStr []) = Inl IndexError"
| "py_item0 (JStr (c # cs)) = Inr (JStr [c])"
| "py_item0 (JObj kvs) = Inl KeyError"
| "py_item0 _ = Inl TypeError"

text \<open>The truth value of \<open>if x:\<close>.\<close>

fun py_truthy :: "json \<Rightarrow> bool" where
  "py_truthy JNull = False"
| "py_truthy (JBool b) = b"
| "py_truthy (JInt n) = (n \<noteq> 0)"
| "py_truthy (JFloat nz) = nz"
| "py_truthy (JStr s) = (s \<noteq> [])"
| "py_truthy (JArr xs) = (xs \<noteq> [])"
| "py_truthy (JObj kvs) = (kvs \<noteq> [])"

text \<open>\<open>x.strip()\<close>: only a string has it.\<close>

fun py_strip_method :: "json \<Rightarrow> exn + pystr" where
  "py_strip_method (JStr s) = Inr (py_strip s)"
| "py_strip_method _ = Inl AttributeError"

text \<open>Sequencing of steps that may raise.\<close>

definition bind_exn :: "exn + 'a \<Rightarrow> ('a \<Rightarrow> exn + 'b) \<Rightarrow> exn + 'b" where
  "bind_exn m f = (case m of Inl e \<Rightarrow> Inl e | Inr x \<Rightarrow> f x)"

text \<open>
  \<open>d.get(key, default)\<close> on a dict whose values are typed: the field is \<open>None\<close> when
  the key is absent.
\<close>

definition get_default :: "'a option \<Rightarrow> 'a \<Rightarrow> 'a" where
  "get_default field d = (case field of None \<Rightarrow> d | Some v \<Rightarrow> v)"

section \<open>The language-model client: call_gemini_api\<close>

text \<open>
  The outside world of the client. One outbound POST is recorded by its URL and the two
  texts of its payload (the header and the temperature 0.5 are constants of the source).
  The network answers the n-th POST of a request by raising, or with a reply: a status code
  and what \<open>response.json()\<close> does on its body.
\<close>

record outbound =
  url :: pystr
  contents_text :: pystr
  system_text :: pystr

datatype http_reply = Reply (status_code: int) (json_body: "exn + json")

datatype post_result = Raised exn | Returned http_reply

type_synonym network = "nat \<Rightarrow> outbound \<Rightarrow> post_result"

definition GEMINI_MODEL_NAME :: pystr where
  "GEMINI_MODEL_NAME = ascii ''gemini-2.5-flash-preview-09-2025''"

definition GEMINI_API_BASE :: pystr where
  "GEMINI_API_BASE = ascii ''https://generativelanguage.googleapis.com/v1beta/models/''"

definition GEMINI_API_URL :: pystr where
  "GEMINI_API_URL = GEMINI_API_BASE @ GEMINI_MODEL_NAME @ ascii '':generateContent''"

text \<open>The five fallback texts of the client (lines 31, 72, 77, 81, 85).\<close>

definition msg_not_configured :: pystr where
  "msg_not_configured =
     [22238, 39243, 22833, 25943, 65306] @ ascii ''AI '' @ [26381, 21209, 26410, 37197, 32622] @
     ascii '' (API Key '' @ [32570, 22833] @ ascii '')'' @ [12290]"

definition msg_no_content :: pystr where
  "msg_no_content =
     [22238, 39243, 22833, 25943, 65306] @ ascii ''AI '' @
     [26381, 21209, 26283, 26178, 28961, 27861, 25552, 20379, 20839, 23481, 12290]"

definition msg_http_error :: "int \<Rightarrow> pystr" where
  "msg_http_error code =
     [22238, 39243, 22833, 25943, 65306] @ ascii ''API '' @ [26381, 21209, 37679, 35492] @
     ascii '' ('' @ [20195, 30908] @ ascii '': '' @ str_of_int code @
     ascii '')'' @ [12290, 35531, 27298, 26597] @ ascii '' API Key '' @
     [26159, 21542, 26377, 25928, 25110, 26159, 21542, 26377, 20351, 29992, 38480, 21046, 12290]"

definition msg_network_error :: pystr where
  "msg_network_error =
     [22238, 39243, 22833, 25943, 65306, 32178, 36335, 36899, 32218, 37679, 35492, 25110,
      36229, 26178, 12290]"

definition msg_internal_error :: pystr where
  "msg_internal_error =
     [22238, 39243, 22833, 25943, 65306, 20839, 37096, 34389, 29702, 37679, 35492, 12290]"

text \<open>\<open>response.raise_for_status()\<close>: an HTTPError for a 4xx or 5xx status.\<close>

definition raise_for_status :: "http_reply \<Rightarrow> exn + unit" where
  "raise_for_status r =
     (if 400 \<le> status_code r \<and> status_code r < 600 then Inl (HTTPError (status_code r))
      else Inr ())"

text \<open>Lines 64 to 72: the text of the first part of the first candidate.\<close>

definition extract_text :: "json \<Rightarrow> exn + pystr" where
  "extract_text result =
     bind_exn (py_get result (ascii ''candidates'') (JArr [JObj []])) (\<lambda>candidates.
     bind_exn (py_item0 candidates) (\<lambda>candidate.
     bind_exn (py_get candidate (ascii ''content'') (JObj [])) (\<lambda>content.
     bind_exn (py_get content (ascii ''parts'') (JArr [JObj []])) (\<lambda>parts.
     bind_exn (py_item0 parts) (\<lambda>part.
     bind_exn (py_get part (ascii ''text'') JNull) (\<lambda>generated_text.
       if py_truthy generated_text then py_strip_method generated_text
       else Inr msg_no_content))))))"

text \<open>The body of the \<open>try\<close> (lines 52 to 72), given what the POST did.\<close>

definition gemini_try :: "post_result \<Rightarrow> exn + pystr" where
  "gemini_try p =
     (case p of
        Raised e \<Rightarrow> Inl e
      | Returned response \<Rightarrow>
          bind_exn (raise_for_status response) (\<lambda>_.
          bind_exn (json_body response) extract_text))"

text \<open>The three \<open>except\<close> clauses (lines 74 to 85), in the source's order.\<close>

fun gemini_except :: "exn \<Rightarrow> exn + pystr" where
  "gemini_except (HTTPError code) = Inr (msg_http_error code)"
| "gemini_except RequestException = Inr msg_network_error"
| "gemini_except _ = Inr msg_internal_error"

text \<open>
  \<open>call_gemini_api(prompt, system_instruction)\<close>. \<open>API_KEY\<close> is \<open>os.getenv(...)\<close>:
  \<open>None\<close> or a string, and \<open>not API_KEY\<close> holds for \<open>None\<close> and for the empty string.
  \<open>sent\<close> is the list of POSTs made so far; the result is what the function returns
  (\<open>Inl\<close>: an exception leaves it) and the POSTs made. The \<open>print\<close> calls write to
  the console only and are left out.
\<close>

definition call_gemini_api ::
  "pystr option \<Rightarrow> network \<Rightarrow> pystr \<Rightarrow> pystr \<Rightarrow> outbound list \<Rightarrow> (exn + pystr) \<times> outbound list" where
  "call_gemini_api API_KEY net prompt system_instruction sent =
     (case API_KEY of
        None \<Rightarrow> (Inr msg_not_configured, sent)
      | Some key \<Rightarrow>
          if key = [] then (Inr msg_not_configured, sent)
          else
            let request = \<lparr>url = GEMINI_API_URL @ ascii ''?key='' @ key,
                           contents_text = prompt, system_text = system_instruction\<rparr>;
                posted = net (length sent) request
            in (case gemini_try posted of
                  Inr s \<Rightarrow> Inr s
                | Inl e \<Rightarrow> gemini_except e,
                sent @ [request]))"

section \<open>The feedback composer\<close>

subsection \<open>The fixed texts of the prompts\<close>

definition hints_system_instruction :: pystr where
  \<comment> \<open>line 98: the teacher who gives short Chinese clues for the missed words\<close>
  "hints_system_instruction =
     [20320, 26159, 19968, 20301, 35242, 20999, 19988, 23560, 26989, 30340, 33521, 25991, 32769,
      24107, 65292, 27491, 22312, 28858, 22294, 29255, 21934, 23383, 35299, 35598, 36938, 25138,
      25552, 20379, 36628, 21161, 25552, 31034, 12290, 20320, 30340, 20219, 21209, 26159, 26681,
      25818, 23416, 29983, 37679, 36942, 30340, 21934, 23383, 65292, 25552, 20379, 31777, 30701,
      12289, 31934, 30906, 30340, 20013, 25991, 25551, 36848, 25552, 31034, 65292, 24171, 21161,
      20182, 20497, 25512, 29702, 20986, 27491, 30906, 31572, 26696, 12290, 35531, 20197, 40723,
      21237, 21644, 21451, 21892, 30340, 35486, 27683, 22238, 35206, 12290, 21934, 23383, 30340,
      25552, 31034, 24517, 38920, 31526, 21512, 22294, 29255, 30340, 24847, 22659, 12290]"

definition prompt_hints_1 :: pystr where
  \<comment> \<open>lines 113, 114, before the wrongly guessed words\<close>
  "prompt_hints_1 =
     [36938, 25138, 24773, 22659, 65306, 23416, 29983, 27491, 22312, 29609, 22294, 29255, 35299,
      35598, 36938, 25138, 65292, 38656, 35201, 26681, 25818, 22294, 29255, 20839, 23481, 29468,
      20986, 21934, 23383, 12290, 22294, 29255, 20013, 36996, 26377, 23416, 29983, 29468, 37679,
      30340, 21934, 23383, 65306] @ ascii '' ''"

definition prompt_hints_rules :: pystr where
  \<comment> \<open>lines 114 to 117: the task and the rules for the clues (short Chinese descriptions, the word itself not revealed, plain text, at most 30 characters each)\<close>
  "prompt_hints_rules =
     [12290, 20320, 30340, 20219, 21209, 26159, 25552, 20379, 36628, 21161, 12290] @ ascii '' '' @
     [35531, 37341, 23565, 20197, 19979, 12302, 36986, 28431, 30340, 27491, 30906, 21934, 23383,
      12303, 25552, 20379] @ ascii ''**'' @ [31777, 30701, 30340, 20013, 25991, 25551, 36848,
     25552, 31034] @ ascii ''**'' @ [65292, 24171, 21161, 20182, 29468, 20986, 27491, 30906,
     31572, 26696, 12290] @ ascii '' '' @ [35531, 21247, 36879, 38706, 21934, 23383, 26412,
     36523, 12290, 22238, 35206, 20839, 23481, 24517, 38920, 26159, 32020, 25991, 23383, 65292,
     19981, 38656, 35201, 27161, 38988, 65292, 19981, 38656, 35201, 38989, 22806, 30340, 25945,
     23416, 25110, 35299, 37323, 65292, 20677, 25552, 20379, 25552, 31034, 20839, 23481, 12290] @
     ascii '' '' @ [27599, 20491, 21934, 23383, 30340, 25552, 31034] @ ascii ''**'' @ [19981,
     36229, 36942] @ ascii '' 30 '' @ [20491, 20013, 25991, 23383] @ ascii ''**'' @ [12290]"

definition prompt_hints_join_rule :: pystr where
  \<comment> \<open>line 117: if there are several words, be sure to join all the clues with the Chinese semicolon (U+FF1B)\<close>
  "prompt_hints_join_rule =
     [22914, 26524, 26377, 22810, 20491, 21934, 23383, 65292, 35531, 21209, 24517, 20351, 29992] @
     ascii ''**'' @ [20013, 25991, 20998, 34399, 12300, 65307, 12301] @ ascii ''**'' @ [36899,
     25509, 25152, 26377, 25552, 31034, 12290]"

definition prompt_hints_list_head :: pystr where
  \<comment> \<open>line 118: the heading of the list of missed words\<close>
  "prompt_hints_list_head =
     ascii '' '' @ [38656, 35201, 25552, 31034, 30340, 36986, 28431, 21934, 23383, 21015, 34920,
      65306]"

definition critique_system_instruction :: pystr where
  \<comment> \<open>line 125: the teacher who corrects the sentence\<close>
  "critique_system_instruction =
     [20320, 26159, 19968, 20301, 22196, 35641, 30340, 33521, 25991, 32769, 24107, 12290, 20320,
      30340, 20219, 21209, 26159, 20998, 26512, 23416, 29983, 30340, 33521, 25991, 36896, 21477,
      65292, 26681, 25818, 21477, 22411, 35201, 27714, 21644, 25033, 20351, 29992, 30340, 21934,
      23383, 65292, 25552, 20379, 20855, 39636, 30340, 20462, 27491, 24314, 35696, 12290, 22238,
      39243, 24517, 38920, 35242, 20999, 12289, 40723, 21237, 65292, 20006, 19988, 20197, 20013,
      25991, 26360, 23531, 12290]"

definition critique_prompt_1 :: pystr where
  \<comment> \<open>lines 130, 131, before the sentence\<close>
  "critique_prompt_1 =
     [35531, 20998, 26512, 20197, 19979, 23416, 29983, 36896, 30340, 33521, 25991, 21477, 23376,
      65306, 10, 10] @ ascii ''**'' @ [20351, 29992, 32773, 21477, 23376] @
     ascii '' (User Sentence):** '' @ [12302]"

definition critique_prompt_2 :: pystr where
  \<comment> \<open>lines 131, 132, between the sentence and the required words\<close>
  "critique_prompt_2 =
     [12303, 10] @ ascii ''**'' @ [26412, 38364, 21345, 35201, 27714, 30340, 21934, 23383] @
     ascii '' (Required Words, total 3):** ''"

definition critique_prompt_3 :: pystr where
  \<comment> \<open>lines 132, 133, between the required words and the sentence pattern\<close>
  "critique_prompt_3 =
     [10] @ ascii ''**'' @ [21477, 22411, 25552, 31034] @ ascii '' (Sentence Prompt):** '' @
     [12302]"

definition critique_prompt_4 :: pystr where
  \<comment> \<open>lines 133 to 138: the three points to check and the length of the reply\<close>
  "critique_prompt_4 =
     [12303, 10, 10, 35531, 26681, 25818, 20197, 19979, 20778, 20808, 38918, 24207, 32102, 20104,
      20462, 27491, 33287, 24314, 35696] @ ascii '' ('' @ [20316, 28858, 12302, 36896, 21477,
     22238, 39243, 12303] @ ascii ''):'' @ [10] @ ascii ''1. '' @ [21477, 23376, 26159, 21542,
     31526, 21512, 21477, 22411, 25552, 31034, 30340, 35201, 27714, 65311, 33509, 19981, 31526,
     65292, 35531, 25351, 31034, 20462, 27491, 12290, 10] @ ascii ''2. '' @ [21477, 23376, 20013,
      26159, 21542, 26377, 26126, 39023, 30340, 25991, 27861, 25110, 25340, 23531, 37679, 35492,
      65311, 33509, 26377, 65292, 35531, 20462, 27491, 12290, 10] @ ascii ''3. '' @ [25552,
     37266, 23416, 29983, 36996, 27794, 29468, 23565, 25152, 26377, 21934, 23383, 65292, 40723,
     21237, 20182, 20497, 22039, 35430, 20351, 29992, 24050, 29468, 20986, 30340, 21934, 23383,
     36896, 21477, 12290, 10, 22238, 35206, 26684, 24335, 65306, 35531, 30452, 25509, 36664,
     20986, 25991, 27861, 24314, 35696, 21644, 40723, 21237, 65292, 32317, 38263, 24230, 38480,
     21046, 22312] @ ascii '' 50 '' @ [21040] @ ascii '' 100 '' @ [20491, 20013, 25991, 23383,
     20043, 38291, 12290]"

definition analysis_system_instruction :: pystr where
  \<comment> \<open>line 153: the writing and grammar teacher\<close>
  "analysis_system_instruction =
     [20320, 26159, 19968, 20301, 22196, 35641, 30340, 33521, 25991, 23531, 20316, 33287, 25991,
      27861, 32769, 24107, 12290, 20320, 30340, 20219, 21209, 26159, 20998, 26512, 23416, 29983,
      30340, 33521, 25991, 36896, 21477, 65292, 25552, 20379, 20855, 39636, 30340, 25991, 27861,
      20462, 27491, 21644, 21477, 22411, 20351, 29992, 24314, 35696, 12290, 22238, 39243, 24517,
      38920, 35242, 20999, 12289, 40723, 21237, 65292, 20006, 19988, 20197, 20013, 25991, 26360,
      23531, 12290]"

definition analysis_prompt_1 :: pystr where
  \<comment> \<open>lines 158, 159, before the sentence\<close>
  "analysis_prompt_1 =
     [35531, 20998, 26512, 20197, 19979, 23416, 29983, 36896, 30340, 33521, 25991, 21477, 23376,
      65292, 36914, 34892, 22196, 26684, 30340, 27298, 26597, 21644, 22238, 39243, 65306, 10,
     10] @ ascii ''1. **'' @ [20351, 29992, 32773, 21477, 23376] @
     ascii '' (User Sentence):** '' @ [12302]"

definition analysis_prompt_2 :: pystr where
  \<comment> \<open>lines 159, 160, between the sentence and the required words\<close>
  "analysis_prompt_2 =
     [12303, 10] @ ascii ''2. **'' @ [24517, 38920, 20351, 29992, 30340, 19977, 20491, 21934,
     23383] @ ascii '' (Required Words):** ''"

definition analysis_prompt_3 :: pystr where
  \<comment> \<open>lines 160, 161, between the required words and the sentence pattern\<close>
  "analysis_prompt_3 =
     [10] @ ascii ''3. **'' @ [21477, 22411, 25552, 31034] @ ascii '' (Sentence Prompt):** '' @
     [12302]"

definition analysis_prompt_4 :: pystr where
  \<comment> \<open>lines 161 to 166: the three checks, the fixed opening words and the length of the reply\<close>
  "analysis_prompt_4 =
     [12303, 10, 10, 35531, 30906, 35469, 65306, 10] @ ascii ''a) **'' @ [12304, 24375, 21046,
     27298, 26597, 12305] @ ascii ''** '' @ [21477, 23376, 26159, 21542, 23436, 25972, 19988,
     28310, 30906, 22320, 20351, 29992, 20102, 25152, 26377, 12302, 24517, 38920, 20351, 29992,
     30340, 19977, 20491, 21934, 23383, 12303, 12290, 10] @ ascii ''b) **'' @ [12304, 24375,
     21046, 27298, 26597, 12305] @ ascii ''** '' @ [21477, 23376, 26159, 21542, 23436, 20840,
     31526, 21512, 21477, 22411, 25552, 31034, 30340, 35201, 27714, 12290, 10] @ ascii ''c) '' @
     [21477, 23376, 20013, 26159, 21542, 26377, 20219, 20309, 25991, 27861, 12289, 35422, 24409,
      25110, 25340, 23531, 37679, 35492, 12290, 10, 10, 127919] @ ascii '' '' @ [38364, 37749,
     35201, 27714, 65306, 22238, 35206, 26684, 24335, 24517, 38920, 20197, 12302, 24685, 21916,
     20320, 23436, 20840, 31572, 23565, 20102, 65281, 12303, 38283, 38957, 65292, 25509, 33879,
     26159, 25991, 27861, 20462, 27491, 24314, 35696, 21644, 40723, 21237, 12290, 22914, 26524,
     21477, 23376, 22312, 21934, 23383, 20351, 29992, 12289, 21477, 22411, 21512, 35215, 21644,
     25991, 27861, 19978] @ ascii ''**'' @ [23436, 20840, 27491, 30906] @ ascii ''**'' @ [65292,
      21063, 32102, 20104, 39640, 24230, 35738, 25562, 12290, 32317, 38263, 24230, 38480, 21046,
      22312] @ ascii '' 50 '' @ [21040] @ ascii '' 100 '' @ [20491, 20013, 25991, 23383, 20043,
     38291, 12290, 35531, 30452, 25509, 36664, 20986, 22238, 39243, 20839, 23481, 65292, 19981,
     21253, 21547, 38989, 22806, 27161, 38988, 12290]"

definition default_tip :: pystr where
  \<comment> \<open>line 108: the category "object"\<close>
  "default_tip = [29289, 20214]"

definition no_incorrect_words :: pystr where
  \<comment> \<open>line 114: "none"\<close>
  "no_incorrect_words = [28961]"

definition echo_prefix :: pystr where
  \<comment> \<open>lines 143 and 173: "The sentence you made is:"\<close>
  "echo_prefix = [24744, 36896, 30340, 21477, 23376, 26159, 65306]"

definition blank_line :: pystr where
  "blank_line = [10, 10]"

subsection \<open>Strategy A: generate_word_hints_text\<close>

text \<open>
  One entry of easy\_mode.json, a dict: \<open>item['level']\<close> raises KeyError when the key
  is absent, \<open>level_info.get('tip', [])\<close> and \<open>level_info.get('answer', [])\<close> default.
\<close>

record level_info =
  level :: "int option"
  tip :: "pystr list option"
  answer :: "pystr list option"

text \<open>Line 109: the line for one missed word and its category.\<close>

definition word_prompt :: "pystr \<Rightarrow> pystr \<Rightarrow> pystr" where
  "word_prompt word tip_type =
     [21934, 23383] @ ascii '': '' @ word @ ascii '' ('' @ [39006, 21029] @ ascii '': '' @
     tip_type @ ascii '')''"

text \<open>
  Lines 105 to 109: the loop over \<open>enumerate(correct_answers)\<close>; \<open>i\<close> is the index of the
  next word and \<open>missing_words_prompts\<close> the list appended to.
\<close>

fun build_missing_words_prompts ::
  "pystr list \<Rightarrow> pystr list \<Rightarrow> nat \<Rightarrow> pystr list \<Rightarrow> pystr list \<Rightarrow> pystr list" where
  "build_missing_words_prompts tips missing_words i [] missing_words_prompts =
     missing_words_prompts"
| "build_missing_words_prompts tips missing_words i (word # rest) missing_words_prompts =
     (if word \<in> set missing_words then
        let tip_type = (if i < length tips then tips ! i else default_tip)
        in build_missing_words_prompts tips missing_words (Suc i) rest
             (missing_words_prompts @ [word_prompt word tip_type])
      else build_missing_words_prompts tips missing_words (Suc i) rest missing_words_prompts)"

text \<open>Lines 112 to 119.\<close>

definition prompt_hints :: "pystr list \<Rightarrow> pystr list \<Rightarrow> pystr" where
  "prompt_hints incorrect_words missing_words_prompts =
     prompt_hints_1 @
     (if incorrect_words \<noteq> [] then py_join (ascii '', '') incorrect_words
      else no_incorrect_words) @
     prompt_hints_rules @ prompt_hints_join_rule @ prompt_hints_list_head @
     py_join (ascii '', '') missing_words_prompts @ [12290]"

text \<open>Lines 129 to 139.\<close>

definition critique_prompt :: "pystr \<Rightarrow> pystr list \<Rightarrow> pystr \<Rightarrow> pystr" where
  "critique_prompt user_sentence correct_words sentence_prompt =
     critique_prompt_1 @ user_sentence @ critique_prompt_2 @
     py_join (ascii '', '') correct_words @ critique_prompt_3 @ sentence_prompt @
     critique_prompt_4"

definition generate_word_hints_text ::
  "pystr option \<Rightarrow> network \<Rightarrow> level_info \<Rightarrow> pystr list \<Rightarrow> pystr list \<Rightarrow> pystr \<Rightarrow>
   pystr list \<Rightarrow> pystr \<Rightarrow> outbound list \<Rightarrow> (exn + pystr) \<times> outbound list" where
  "generate_word_hints_text API_KEY net level_info missing_words incorrect_words user_sentence
     correct_words sentence_prompt sent =
     (let tips = get_default (tip level_info) [];
          correct_answers = get_default (answer level_info) [];
          missing_words_prompts =
            build_missing_words_prompts tips missing_words 0 correct_answers []
      in case call_gemini_api API_KEY net (prompt_hints incorrect_words missing_words_prompts)
                hints_system_instruction sent of
           (Inl e, sent1) \<Rightarrow> (Inl e, sent1)
         | (Inr ai_hints, sent1) \<Rightarrow>
             (case call_gemini_api API_KEY net
                     (critique_prompt user_sentence correct_words sentence_prompt)
                     critique_system_instruction sent1 of
                (Inl e, sent2) \<Rightarrow> (Inl e, sent2)
              | (Inr ai_critique, sent2) \<Rightarrow>
                  (Inr (echo_prefix @ user_sentence @ blank_line @ ai_hints @ blank_line @
                        ai_critique), sent2)))"

subsection \<open>Strategy B: analyze_user_sentence_text\<close>

text \<open>Lines 157 to 167.\<close>

definition analysis_prompt :: "pystr \<Rightarrow> pystr list \<Rightarrow> pystr \<Rightarrow> pystr" where
  "analysis_prompt user_sentence correct_words sentence_prompt =
     analysis_prompt_1 @ user_sentence @ analysis_prompt_2 @
     py_join (ascii '', '') correct_words @ analysis_prompt_3 @ sentence_prompt @
     analysis_prompt_4"

definition analyze_user_sentence_text ::
  "pystr option \<Rightarrow> network \<Rightarrow> pystr \<Rightarrow> pystr list \<Rightarrow> pystr \<Rightarrow> outbound list \<Rightarrow>
   (exn + pystr) \<times> outbound list" where
  "analyze_user_sentence_text API_KEY net user_sentence correct_words sentence_prompt sent =
     (case call_gemini_api API_KEY net
             (analysis_prompt user_sentence correct_words sentence_prompt)
             analysis_system_instruction sent of
        (Inl e, sent1) \<Rightarrow> (Inl e, sent1)
      | (Inr ai_critique, sent1) \<Rightarrow>
          (Inr (echo_prefix @ user_sentence @ blank_line @ ai_critique), sent1))"

section \<open>The request handler: get_ai_feedback\<close>

text \<open>
  The body of a feedback request, with the fields of the endpoint typed as its interface
  has them (an integer, strings, arrays of strings); \<open>None\<close> is an absent key, for which
  \<open>data.get\<close> takes its default. A body whose fields have other types is outside this
  model (there \<open>strip\<close>, \<open>join\<close> or \<open>in\<close> may raise, which the outer handler turns
  into status 500).
\<close>

record feedback_request =
  req_level :: "int option"
  req_missing_words :: "pystr list option"
  req_incorrect_words :: "pystr list option"
  req_user_sentence :: "pystr option"
  req_sentence_prompt :: "pystr option"
  req_correct_words :: "pystr list option"

text \<open>
  What opening and parsing \<open>EASY_MODE_JSON_PATH\<close> does on this request: the two
  exceptions the inner handler catches, any other exception (PermissionError, or
  UnicodeDecodeError for bytes that are not UTF-8), or the list of levels.
\<close>

datatype easy_mode_json =
    Raises_FileNotFoundError
  | Raises_JSONDecodeError
  | Raises_other exn
  | Holds "level_info list"

record response =
  status :: nat
  feedback :: pystr

definition level_not_found_1 :: pystr where
  \<comment> \<open>line 214, before the level: system error, cannot find level\<close>
  "level_not_found_1 =
     [31995, 32113, 37679, 35492, 65306, 25214, 19981, 21040, 38364, 21345] @ ascii '' ''"

definition level_not_found_2 :: pystr where
  \<comment> \<open>line 214, after the level: 's data; please check easy\_mode.json\<close>
  "level_not_found_2 =
     ascii '' '' @ [30340, 36039, 26009, 12290, 35531, 27298, 26597] @
     ascii '' easy_mode.json'' @ [12290]"

definition msg_level_not_found :: "int \<Rightarrow> pystr" where
  "msg_level_not_found current_level =
     level_not_found_1 @ str_of_int current_level @ level_not_found_2"

definition msg_data_file :: pystr where
  \<comment> \<open>line 217: feedback failed, the backend data file is missing or has a format error\<close>
  "msg_data_file =
     [22238, 39243, 22833, 25943, 65306, 24460, 31471, 25976, 25818, 25991, 20214] @
     ascii '' (easy_mode.json) '' @ [36986, 22833, 25110, 26684, 24335, 37679, 35492, 12290]"

definition msg_reminder :: pystr where
  \<comment> \<open>line 226: congratulations, all correct; please enter your sentence first\<close>
  "msg_reminder =
     [24685, 21916, 20320, 23436, 20840, 31572, 23565, 20102, 65281, 10, 10, 35531, 20808,
      36664, 20837, 24744, 30340, 33521, 25991, 36896, 21477, 65292, 20197, 20415] @
     ascii '' AI '' @ [36914, 34892, 22238, 39243, 20998, 26512, 12290]"

definition msg_server_error :: pystr where
  \<comment> \<open>line 240: server processing error, check the backend console\<close>
  "msg_server_error =
     [20282, 26381, 22120, 34389, 29702, 37679, 35492, 65292, 35531, 27298, 26597, 24460,
      31471, 25511, 21046, 21488, 12290]"

text \<open>
  Line 212: \<open>next((item for item in all_levels_data if item['level'] == current_level),
  None)\<close>, the first item of that level; an item met before it that has no \<open>'level'\<close>
  raises KeyError. An item that is found is a dict with a key, so \<open>not level_info\<close>
  (line 213) holds exactly when nothing was found.
\<close>

fun find_level :: "level_info list \<Rightarrow> int \<Rightarrow> exn + level_info option" where
  "find_level [] current_level = Inr None"
| "find_level (item # rest) current_level =
     (case level item of
        None \<Rightarrow> Inl KeyError
      | Some l \<Rightarrow> if l = current_level then Inr (Some item) else find_level rest current_level)"

text \<open>
  \<open>jsonify({"feedback": text})\<close> with status 200 (lines 214, 218, 226, 235), the reply
  of the outer handler (line 240), and lines 228 to 240 for a strategy's result: its text
  is returned, an exception it raised is caught by the outer handler.
\<close>

definition ok :: "pystr \<Rightarrow> response" where
  "ok text = \<lparr>status = 200, feedback = text\<rparr>"

definition server_error :: response where
  "server_error = \<lparr>status = 500, feedback = msg_server_error\<rparr>"

definition respond :: "(exn + pystr) \<times> outbound list \<Rightarrow> response \<times> outbound list" where
  "respond r = (case r of (Inl e, sent1) \<Rightarrow> (server_error, sent1) | (Inr fb, sent1) \<Rightarrow> (ok fb, sent1))"

text \<open>
  \<open>get_ai_feedback()\<close>. \<open>body\<close> is what \<open>request.get_json()\<close> gives: \<open>None\<close> when it
  raises or the body is no JSON object (then \<open>data.get\<close> raises), else the request.
\<close>

definition get_ai_feedback ::
  "pystr option \<Rightarrow> network \<Rightarrow> easy_mode_json \<Rightarrow> feedback_request option \<Rightarrow> outbound list \<Rightarrow>
   response \<times> outbound list" where
  "get_ai_feedback API_KEY net file body sent =
     (case body of
        None \<Rightarrow> (server_error, sent)
      | Some data \<Rightarrow>
          let current_level = get_default (req_level data) 1;
              missing_words = get_default (req_missing_words data) [];
              incorrect_words = get_default (req_incorrect_words data) [];
              user_sentence = py_strip (get_default (req_user_sentence data) []);
              sentence_prompt = py_strip (get_default (req_sentence_prompt data) []);
              correct_words = get_default (req_correct_words data) []
          in (case file of
                Raises_FileNotFoundError \<Rightarrow> (ok msg_data_file, sent)
              | Raises_JSONDecodeError \<Rightarrow> (ok msg_data_file, sent)
              | Raises_other e \<Rightarrow> (server_error, sent)
              | Holds all_levels_data \<Rightarrow>
                  (case find_level all_levels_data current_level of
                     Inl e \<Rightarrow> (server_error, sent)
                   | Inr None \<Rightarrow> (ok (msg_level_not_found current_level), sent)
                   | Inr (Some level_info) \<Rightarrow>
                       if missing_words = [] then
                         if user_sentence = [] then (ok msg_reminder, sent)
                         else respond (analyze_user_sentence_text API_KEY net user_sentence
                                         correct_words sentence_prompt sent)
                       else respond (generate_word_hints_text API_KEY net level_info
                                       missing_words incorrect_words user_sentence
                                       correct_words sentence_prompt sent))))"

section \<open>Sample data\<close>

text \<open>
  A network that is down; a model that answers every prompt with the same text; one level
  whose list of categories is shorter than its list of words; requests for it; texts a
  model may answer with; and an entry of the level file that lacks its level.
\<close>

definition offline :: network where
  "offline n r = Raised RequestException"

definition model_says :: "pystr \<Rightarrow> network" where
  "model_says t n r =
     Returned (Reply 200 (Inr (JObj [(ascii ''candidates'',
       JArr [JObj [(ascii ''content'',
         JObj [(ascii ''parts'', JArr [JObj [(ascii ''text'', JStr t)]])])]])])))"

definition level_1 :: level_info where
  "level_1 = \<lparr>level = Some 1, tip = Some [ascii ''animal'', ascii ''animal''],
               answer = Some [ascii ''jellyfish'', ascii ''crocodile'', ascii ''universe'']\<rparr>"

definition request_all_missing :: feedback_request where
  "request_all_missing =
     \<lparr>req_level = Some 1,
      req_missing_words = Some [ascii ''jellyfish'', ascii ''crocodile'', ascii ''universe''],
      req_incorrect_words = Some [ascii ''fish''],
      req_user_sentence = Some (ascii ''  I see a fish. ''),
      req_sentence_prompt = Some (ascii ''I see ... ''),
      req_correct_words = Some [ascii ''jellyfish'', ascii ''crocodile'', ascii ''universe'']\<rparr>"

definition request_all_found :: feedback_request where
  "request_all_found =
     request_all_missing\<lparr>req_missing_words := Some [], req_incorrect_words := None\<rparr>"

definition request_blank :: feedback_request where
  "request_blank = request_all_found\<lparr>req_user_sentence := Some (ascii ''   '')\<rparr>"

definition two_paragraphs :: pystr where
  "two_paragraphs = ascii ''Good try.'' @ [10, 10] @ ascii ''Keep going.''"

definition one_clue :: pystr where
  "one_clue = ascii ''It lives in the sea.''"

definition two_lines :: pystr where
  "two_lines = ascii ''Good try.'' @ [10] @ ascii ''Keep going.''"


section \<open>Properties\<close>

subsection \<open>Strings\<close>

lemma dropWhile_fixed: "xs = [] \<or> \<not> P (hd xs) \<Longrightarrow> dropWhile P xs = xs"
  by (cases xs) auto

lemma dropWhile_head: "dropWhile P xs = [] \<or> \<not> P (hd (dropWhile P xs))"
  using hd_dropWhile by blast

lemma rev_dropWhile_rev_prefix:
  "\<exists>zs. xs = rev (dropWhile P (rev xs)) @ zs"
proof -
  have "xs = rev (takeWhile P (rev xs) @ dropWhile P (rev xs))"
    by (simp only: takeWhile_dropWhile_id rev_rev_ident)
  then have "xs = rev (dropWhile P (rev xs)) @ rev (takeWhile P (rev xs))"
    by (simp only: rev_append)
  then show ?thesis by blast
qed

lemma py_strip_idem: "py_strip (py_strip s) = py_strip s"
proof -
  let ?P = py_isspace
  let ?t = "dropWhile ?P s"
  let ?u = "rev (dropWhile ?P (rev ?t))"
  obtain zs where t: "?t = ?u @ zs" using rev_dropWhile_rev_prefix by blast
  have "?u = [] \<or> \<not> ?P (hd ?u)"
  proof (cases "?u = []")
    case True then show ?thesis by simp
  next
    case False
    then have "hd ?u = hd ?t" using t by (metis hd_append2)
    moreover have "?t \<noteq> []"
    proof
      assume "?t = []"
      then have "?u = []" by (simp del: dropWhile_eq_Nil_conv)
      with False show False by simp
    qed
    ultimately show ?thesis using dropWhile_head [of ?P s] by metis
  qed
  then have 1: "dropWhile ?P ?u = ?u" by (rule dropWhile_fixed)
  have 2: "dropWhile ?P (rev ?u) = rev ?u"
    using dropWhile_head [of ?P "rev ?t"] by (simp add: dropWhile_fixed)
  have "py_strip ?u = ?u" unfolding py_strip_def 1 2 by simp
  then show ?thesis by (simp add: py_strip_def)
qed

lemma py_strip_blank: "\<forall>c \<in> set s. py_isspace c \<Longrightarrow> py_strip s = []"
proof -
  assume "\<forall>c \<in> set s. py_isspace c"
  then have "dropWhile py_isspace s = []" by (simp add: dropWhile_eq_Nil_conv)
  then show ?thesis by (simp add: py_strip_def del: dropWhile_eq_Nil_conv)
qed

subsection \<open>The loop of the hint-request lines\<close>

lemma build_missing_words_prompts_eq:
  "build_missing_words_prompts tips missing_words i answers acc =
     acc @ map (\<lambda>j. word_prompt (answers ! j)
                       (if i + j < length tips then tips ! (i + j) else default_tip))
             (filter (\<lambda>j. answers ! j \<in> set missing_words) [0..<length answers])"
proof (induction answers arbitrary: i acc)
  case Nil
  then show ?case by simp
next
  case (Cons word rest)
  have up: "[0..<length (word # rest)] = 0 # map Suc [0..<length rest]"
    by (simp add: upt_conv_Cons map_Suc_upt del: upt_Suc)
  show ?case
    unfolding up by (simp add: Cons.IH filter_map comp_def Let_def)
qed


subsection \<open>The client\<close>

lemma gemini_except_returns: "\<exists>s. gemini_except e = Inr s"
  by (cases e) simp_all

lemma call_gemini_api_returns:
  "\<exists>s sent'. call_gemini_api API_KEY net prompt system_instruction sent = (Inr s, sent')"
proof (cases API_KEY)
  case None
  then show ?thesis by (simp add: call_gemini_api_def)
next
  case (Some key)
  show ?thesis
  proof (cases "key = []")
    case True
    with Some show ?thesis by (simp add: call_gemini_api_def)
  next
    case False
    let ?request = "\<lparr>url = GEMINI_API_URL @ ascii ''?key='' @ key,
                     contents_text = prompt, system_text = system_instruction\<rparr>"
    show ?thesis
    proof (cases "gemini_try (net (length sent) ?request)")
      case (Inl e)
      obtain s where "gemini_except e = Inr s" using gemini_except_returns by blast
      with Some False Inl show ?thesis by (simp add: call_gemini_api_def Let_def)
    next
      case (Inr s)
      with Some False show ?thesis by (simp add: call_gemini_api_def Let_def)
    qed
  qed
qed

lemma call_gemini_api_sent:
  "\<exists>new. snd (call_gemini_api API_KEY net prompt system_instruction sent) = sent @ new \<and>
         (\<forall>q \<in> set new. contents_text q = prompt \<and> system_text q = system_instruction)"
proof (cases "API_KEY = None \<or> API_KEY = Some []")
  case True
  then have "snd (call_gemini_api API_KEY net prompt system_instruction sent) = sent @ []"
    by (auto simp: call_gemini_api_def)
  then show ?thesis by (metis empty_iff list.set(1))
next
  case False
  then obtain key where "API_KEY = Some key" "key \<noteq> []" by (cases API_KEY) auto
  then have "snd (call_gemini_api API_KEY net prompt system_instruction sent) =
      sent @ [\<lparr>url = GEMINI_API_URL @ ascii ''?key='' @ key,
                contents_text = prompt, system_text = system_instruction\<rparr>]"
    by (simp add: call_gemini_api_def Let_def)
  then show ?thesis by fastforce
qed

lemma call_gemini_api_sent_with_key:
  assumes "key \<noteq> []"
  shows "snd (call_gemini_api (Some key) net prompt si sent) =
     sent @ [\<lparr>url = GEMINI_API_URL @ ascii ''?key='' @ key, contents_text = prompt,
              system_text = si\<rparr>]"
  using assms by (simp add: call_gemini_api_def Let_def)

text \<open>The failure modes of the client, one by one.\<close>

lemma call_gemini_api_http_error:
  assumes "key \<noteq> []" and "400 \<le> code" and "code < 600"
    and "net (length sent) \<lparr>url = GEMINI_API_URL @ ascii ''?key='' @ key,
            contents_text = prompt, system_text = si\<rparr> = Returned (Reply code body)"
  shows "fst (call_gemini_api (Some key) net prompt si sent) = Inr (msg_http_error code)"
  using assms
  by (simp add: call_gemini_api_def Let_def gemini_try_def raise_for_status_def bind_exn_def)

lemma call_gemini_api_network_error:
  assumes "key \<noteq> []"
    and "net (length sent) \<lparr>url = GEMINI_API_URL @ ascii ''?key='' @ key,
            contents_text = prompt, system_text = si\<rparr> = Raised RequestException"
  shows "fst (call_gemini_api (Some key) net prompt si sent) = Inr msg_network_error"
  using assms by (simp add: call_gemini_api_def Let_def gemini_try_def)

lemma extract_text_no_text:
  "extract_text (JObj []) = Inr msg_no_content"
  by (simp add: extract_text_def bind_exn_def)

lemma extract_text_wrong_shape:
  "extract_text (JArr xs) = Inl AttributeError"
  by (simp add: extract_text_def bind_exn_def)

lemma extract_text_model_says:
  "gemini_try (model_says t n r) = (if t = [] then Inr msg_no_content else Inr (py_strip t))"
  by (simp add: gemini_try_def model_says_def raise_for_status_def bind_exn_def extract_text_def
      ascii_def)

subsection \<open>The strategies\<close>

lemma generate_word_hints_text_returns:
  "\<exists>ai_hints ai_critique sent1 sent2.
     call_gemini_api API_KEY net
       (prompt_hints incorrect_words
          (build_missing_words_prompts (get_default (tip level_info) []) missing_words 0
             (get_default (answer level_info) []) []))
       hints_system_instruction sent = (Inr ai_hints, sent1) \<and>
     call_gemini_api API_KEY net (critique_prompt user_sentence correct_words sentence_prompt)
       critique_system_instruction sent1 = (Inr ai_critique, sent2) \<and>
     generate_word_hints_text API_KEY net level_info missing_words incorrect_words user_sentence
       correct_words sentence_prompt sent =
       (Inr (echo_prefix @ user_sentence @ blank_line @ ai_hints @ blank_line @ ai_critique),
        sent2)"
proof -
  let ?p1 = "prompt_hints incorrect_words
          (build_missing_words_prompts (get_default (tip level_info) []) missing_words 0
             (get_default (answer level_info) []) [])"
  obtain h s1 where 1: "call_gemini_api API_KEY net ?p1 hints_system_instruction sent = (Inr h, s1)"
    using call_gemini_api_returns by blast
  obtain c s2 where 2: "call_gemini_api API_KEY net
      (critique_prompt user_sentence correct_words sentence_prompt)
      critique_system_instruction s1 = (Inr c, s2)"
    using call_gemini_api_returns by blast
  have "generate_word_hints_text API_KEY net level_info missing_words incorrect_words
      user_sentence correct_words sentence_prompt sent =
      (Inr (echo_prefix @ user_sentence @ blank_line @ h @ blank_line @ c), s2)"
    using 1 2 by (simp add: generate_word_hints_text_def Let_def)
  with 1 2 show ?thesis by blast
qed

lemma analyze_user_sentence_text_returns:
  "\<exists>ai_critique sent1.
     call_gemini_api API_KEY net (analysis_prompt user_sentence correct_words sentence_prompt)
       analysis_system_instruction sent = (Inr ai_critique, sent1) \<and>
     analyze_user_sentence_text API_KEY net user_sentence correct_words sentence_prompt sent =
       (Inr (echo_prefix @ user_sentence @ blank_line @ ai_critique), sent1)"
proof -
  obtain c s1 where 1: "call_gemini_api API_KEY net
      (analysis_prompt user_sentence correct_words sentence_prompt)
      analysis_system_instruction sent = (Inr c, s1)"
    using call_gemini_api_returns by blast
  then have "analyze_user_sentence_text API_KEY net user_sentence correct_words sentence_prompt
      sent = (Inr (echo_prefix @ user_sentence @ blank_line @ c), s1)"
    by (simp add: analyze_user_sentence_text_def)
  with 1 show ?thesis by blast
qed

subsection \<open>The handler\<close>

lemma find_level_none:
  "find_level all_levels_data current_level = Inr None \<longleftrightarrow>
     (\<forall>item \<in> set all_levels_data. \<exists>l. level item = Some l \<and> l \<noteq> current_level)"
  by (induction all_levels_data) (auto split: option.splits)

lemma get_ai_feedback_dispatch:
  assumes "find_level all_levels_data (get_default (req_level data) 1) = Inr (Some level_info)"
  shows "get_ai_feedback API_KEY net (Holds all_levels_data) (Some data) sent =
     (if get_default (req_missing_words data) [] = [] then
        if py_strip (get_default (req_user_sentence data) []) = [] then (ok msg_reminder, sent)
        else respond (analyze_user_sentence_text API_KEY net
               (py_strip (get_default (req_user_sentence data) []))
               (get_default (req_correct_words data) [])
               (py_strip (get_default (req_sentence_prompt data) [])) sent)
      else respond (generate_word_hints_text API_KEY net level_info
             (get_default (req_missing_words data) [])
             (get_default (req_incorrect_words data) [])
             (py_strip (get_default (req_user_sentence data) []))
             (get_default (req_correct_words data) [])
             (py_strip (get_default (req_sentence_prompt data) [])) sent))"
  using assms by (simp add: get_ai_feedback_def Let_def)


lemma respond_returned: "respond (Inr fb, sent1) = (ok fb, sent1)"
  by (simp add: respond_def)

lemma generate_word_hints_text_sent:
  "\<exists>new. snd (generate_word_hints_text API_KEY net level_info missing_words incorrect_words
               user_sentence correct_words sentence_prompt sent) = sent @ new \<and>
     (\<forall>q \<in> set new.
        (\<exists>lines. contents_text q = prompt_hints incorrect_words lines) \<or>
        contents_text q = critique_prompt user_sentence correct_words sentence_prompt)"
proof -
  let ?p1 = "prompt_hints incorrect_words
          (build_missing_words_prompts (get_default (tip level_info) []) missing_words 0
             (get_default (answer level_info) []) [])"
  let ?p2 = "critique_prompt user_sentence correct_words sentence_prompt"
  obtain h c s1 s2 where
    1: "call_gemini_api API_KEY net ?p1 hints_system_instruction sent = (Inr h, s1)" and
    2: "call_gemini_api API_KEY net ?p2 critique_system_instruction s1 = (Inr c, s2)" and
    3: "generate_word_hints_text API_KEY net level_info missing_words incorrect_words
          user_sentence correct_words sentence_prompt sent =
          (Inr (echo_prefix @ user_sentence @ blank_line @ h @ blank_line @ c), s2)"
    using generate_word_hints_text_returns by blast
  obtain n1 where n1: "s1 = sent @ n1" "\<forall>q \<in> set n1. contents_text q = ?p1"
    using call_gemini_api_sent [of API_KEY net ?p1 hints_system_instruction sent] 1 by auto
  obtain n2 where n2: "s2 = s1 @ n2" "\<forall>q \<in> set n2. contents_text q = ?p2"
    using call_gemini_api_sent [of API_KEY net ?p2 critique_system_instruction s1] 2 by auto
  have "snd (generate_word_hints_text API_KEY net level_info missing_words incorrect_words
               user_sentence correct_words sentence_prompt sent) = sent @ (n1 @ n2)"
    using 3 n1 n2 by simp
  moreover have "\<forall>q \<in> set (n1 @ n2).
        (\<exists>lines. contents_text q = prompt_hints incorrect_words lines) \<or>
        contents_text q = ?p2"
    using n1 n2 by auto
  ultimately show ?thesis by blast
qed

lemma analyze_user_sentence_text_sent:
  "\<exists>new. snd (analyze_user_sentence_text API_KEY net user_sentence correct_words
               sentence_prompt sent) = sent @ new \<and>
     (\<forall>q \<in> set new.
        contents_text q = analysis_prompt user_sentence correct_words sentence_prompt)"
proof -
  let ?p = "analysis_prompt user_sentence correct_words sentence_prompt"
  obtain c s1 where
    1: "call_gemini_api API_KEY net ?p analysis_system_instruction sent = (Inr c, s1)" and
    2: "analyze_user_sentence_text API_KEY net user_sentence correct_words sentence_prompt sent =
          (Inr (echo_prefix @ user_sentence @ blank_line @ c), s1)"
    using analyze_user_sentence_text_returns by blast
  obtain n1 where n1: "s1 = sent @ n1" "\<forall>q \<in> set n1. contents_text q = ?p"
    using call_gemini_api_sent [of API_KEY net ?p analysis_system_instruction sent] 1 by auto
  then show ?thesis using 2 by auto
qed

lemma respond_snd: "snd (respond r) = snd r"
  by (cases r) (auto simp: respond_def split: sum.splits)

lemma py_strip_Nil: "py_strip [] = []"
  by (simp add: py_strip_def)

lemma sample_strips:
  "py_strip (ascii ''  I see a fish. '') = ascii ''I see a fish.''"
  "py_strip (ascii ''I see ... '') = ascii ''I see ...''"
  by (simp_all add: py_strip_def py_isspace_def ascii_def)

subsection \<open>The fallback texts and the sample model\<close>

lemma str_of_nat_digits: "set (str_of_nat n) \<subseteq> {48..57}"
proof (induction n rule: str_of_nat.induct)
  case (1 n)
  show ?case
  proof (cases "n < 10")
    case True
    then show ?thesis by (simp add: str_of_nat.simps [of n])
  next
    case False
    have "n mod 10 < 10" by simp
    then have "48 + n mod 10 \<in> {48..57}" by auto
    with False 1 show ?thesis by (simp add: str_of_nat.simps [of n])
  qed
qed

lemma str_of_int_no_line_break: "10 \<notin> set (str_of_int i)"
proof -
  have "10 \<notin> set (str_of_nat n)" for n
    using str_of_nat_digits [of n] by auto
  then show ?thesis by (simp add: str_of_int_def)
qed

lemma fallbacks_no_line_break:
  "10 \<notin> set msg_not_configured" "10 \<notin> set msg_no_content" "10 \<notin> set (msg_http_error code)"
  "10 \<notin> set msg_network_error" "10 \<notin> set msg_internal_error"
  by (simp_all add: msg_not_configured_def msg_no_content_def msg_http_error_def
      msg_network_error_def msg_internal_error_def ascii_def str_of_int_no_line_break)

lemma call_gemini_api_model_says:
  assumes "key \<noteq> []" and "t \<noteq> []"
  shows "call_gemini_api (Some key) (model_says t) prompt si sent =
     (Inr (py_strip t), sent @ [\<lparr>url = GEMINI_API_URL @ ascii ''?key='' @ key,
                                  contents_text = prompt, system_text = si\<rparr>])"
  using assms by (simp add: call_gemini_api_def Let_def extract_text_model_says)

lemma py_join_lines:
  "py_join sep [l1] = l1"
  "py_join sep [l1, l2, l3] = l1 @ sep @ l2 @ sep @ l3"
  by simp_all

subsection \<open>The sentence fields\<close>

lemma get_ai_feedback_stripped_request:
  "get_ai_feedback API_KEY net file (Some data) sent =
   get_ai_feedback API_KEY net file
     (Some (data\<lparr>req_user_sentence := Some (py_strip (get_default (req_user_sentence data) [])),
                  req_sentence_prompt :=
                    Some (py_strip (get_default (req_sentence_prompt data) []))\<rparr>)) sent"
  by (simp add: get_ai_feedback_def get_default_def py_strip_idem)

lemma get_ai_feedback_blank_sentence:
  assumes "\<forall>c \<in> set ws. py_isspace c"
  shows "get_ai_feedback API_KEY net file (Some (data\<lparr>req_user_sentence := Some ws\<rparr>)) sent =
         get_ai_feedback API_KEY net file (Some (data\<lparr>req_user_sentence := Some []\<rparr>)) sent"
    and "get_ai_feedback API_KEY net file (Some (data\<lparr>req_user_sentence := Some ws\<rparr>)) sent =
         get_ai_feedback API_KEY net file (Some (data\<lparr>req_user_sentence := None\<rparr>)) sent"
  using py_strip_blank [OF assms]
  by (simp_all add: get_ai_feedback_def get_default_def py_strip_Nil)

lemma get_ai_feedback_echo:
  assumes "find_level all_levels_data (get_default (req_level data) 1) = Inr (Some level_info)"
    and "\<not> (get_default (req_missing_words data) [] = [] \<and>
            py_strip (get_default (req_user_sentence data) []) = [])"
  shows "\<exists>rest. fst (get_ai_feedback API_KEY net (Holds all_levels_data) (Some data) sent) =
           \<lparr>status = 200,
            feedback = echo_prefix @ py_strip (get_default (req_user_sentence data) []) @
                       blank_line @ rest\<rparr>"
proof (cases "get_default (req_missing_words data) [] = []")
  case True
  with assms(2) have ne: "py_strip (get_default (req_user_sentence data) []) \<noteq> []" by simp
  obtain c s1 where "analyze_user_sentence_text API_KEY net
               (py_strip (get_default (req_user_sentence data) []))
               (get_default (req_correct_words data) [])
               (py_strip (get_default (req_sentence_prompt data) [])) sent =
      (Inr (echo_prefix @ py_strip (get_default (req_user_sentence data) []) @ blank_line @ c), s1)"
    using analyze_user_sentence_text_returns by blast
  then show ?thesis
    using True ne by (simp add: get_ai_feedback_dispatch [OF assms(1)] respond_def ok_def)
next
  case False
  obtain h c s2 where "generate_word_hints_text API_KEY net level_info
             (get_default (req_missing_words data) [])
             (get_default (req_incorrect_words data) [])
             (py_strip (get_default (req_user_sentence data) []))
             (get_default (req_correct_words data) [])
             (py_strip (get_default (req_sentence_prompt data) [])) sent =
      (Inr (echo_prefix @ py_strip (get_default (req_user_sentence data) []) @ blank_line @ h @
            blank_line @ c), s2)"
    using generate_word_hints_text_returns by blast
  then show ?thesis
    using False by (simp add: get_ai_feedback_dispatch [OF assms(1)] respond_def ok_def)
qed

lemma get_ai_feedback_prompts:
  "\<exists>new. snd (get_ai_feedback API_KEY net file (Some data) sent) = sent @ new \<and>
     (\<forall>q \<in> set new.
        (\<exists>lines. contents_text q = prompt_hints (get_default (req_incorrect_words data) []) lines) \<or>
        contents_text q =
          critique_prompt (py_strip (get_default (req_user_sentence data) []))
            (get_default (req_correct_words data) [])
            (py_strip (get_default (req_sentence_prompt data) [])) \<or>
        contents_text q =
          analysis_prompt (py_strip (get_default (req_user_sentence data) []))
            (get_default (req_correct_words data) [])
            (py_strip (get_default (req_sentence_prompt data) [])))"
proof -
  let ?us = "py_strip (get_default (req_user_sentence data) [])"
  let ?sp = "py_strip (get_default (req_sentence_prompt data) [])"
  let ?cw = "get_default (req_correct_words data) []"
  let ?iw = "get_default (req_incorrect_words data) []"
  let ?mw = "get_default (req_missing_words data) []"
  let ?ok = "\<lambda>q. (\<exists>lines. contents_text q = prompt_hints ?iw lines) \<or>
        contents_text q = critique_prompt ?us ?cw ?sp \<or>
        contents_text q = analysis_prompt ?us ?cw ?sp"
  let ?r = "get_ai_feedback API_KEY net file (Some data) sent"
  have "snd ?r = sent \<or>
      snd ?r = snd (analyze_user_sentence_text API_KEY net ?us ?cw ?sp sent) \<or>
      (\<exists>level_info. snd ?r =
         snd (generate_word_hints_text API_KEY net level_info ?mw ?iw ?us ?cw ?sp sent))"
  proof (cases "file")
    case (Holds all_levels_data)
    show ?thesis
    proof (cases "find_level all_levels_data (get_default (req_level data) 1)")
      case (Inl e)
      with Holds show ?thesis by (simp add: get_ai_feedback_def Let_def)
    next
      case (Inr found)
      show ?thesis
      proof (cases found)
        case None
        with Holds Inr show ?thesis by (simp add: get_ai_feedback_def Let_def)
      next
        case (Some level_info)
        with Inr have "find_level all_levels_data (get_default (req_level data) 1) =
            Inr (Some level_info)"
          by simp
        note d = get_ai_feedback_dispatch [OF this]
        show ?thesis unfolding Holds d by (auto simp: respond_snd)
      qed
    qed
  qed (simp_all add: get_ai_feedback_def Let_def)
  then consider
    (quiet) "snd ?r = sent"
  | (analysis) "snd ?r = snd (analyze_user_sentence_text API_KEY net ?us ?cw ?sp sent)"
  | (hints) level_info where
      "snd ?r = snd (generate_word_hints_text API_KEY net level_info ?mw ?iw ?us ?cw ?sp sent)"
    by blast
  then show ?thesis
  proof cases
    case quiet
    then have "snd ?r = sent @ [] \<and> (\<forall>q \<in> set []. ?ok q)" by simp
    then show ?thesis by blast
  next
    case analysis
    obtain new where "snd (analyze_user_sentence_text API_KEY net ?us ?cw ?sp sent) = sent @ new"
      "\<forall>q \<in> set new. contents_text q = analysis_prompt ?us ?cw ?sp"
      using analyze_user_sentence_text_sent by blast
    with analysis have "snd ?r = sent @ new \<and> (\<forall>q \<in> set new. ?ok q)" by simp
    then show ?thesis by blast
  next
    case hints
    obtain new where "snd (generate_word_hints_text API_KEY net level_info ?mw ?iw ?us ?cw ?sp
        sent) = sent @ new"
      "\<forall>q \<in> set new. (\<exists>lines. contents_text q = prompt_hints ?iw lines) \<or>
         contents_text q = critique_prompt ?us ?cw ?sp"
      using generate_word_hints_text_sent by blast
    with hints have "snd ?r = sent @ new \<and> (\<forall>q \<in> set new. ?ok q)" by auto
    then show ?thesis by blast
  qed
qed

subsection \<open>Splitting at blank lines\<close>

lemma py_split2_append:
  "xs = [] \<or> last xs \<noteq> a \<Longrightarrow>
   py_split2 a b cur (xs @ a # b # rest) = py_split2 a b cur xs @ py_split2 a b [] rest"
proof (induction a b cur xs rule: py_split2.induct)
  case (1 a b cur)
  then show ?case by simp
next
  case (2 a b cur x)
  then show ?case by simp
next
  case (3 a b cur x y zs)
  show ?case
  proof (cases "x = a \<and> y = b")
    case True
    have p: "zs = [] \<or> last zs \<noteq> a" using "3.prems" by (cases zs) auto
    have L: "py_split2 a b cur ((x # y # zs) @ a # b # rest) =
        rev cur # py_split2 a b [] (zs @ a # b # rest)"
      using True by simp
    have R: "py_split2 a b cur (x # y # zs) = rev cur # py_split2 a b [] zs"
      using True by simp
    show ?thesis unfolding L R using "3.IH"(1) [OF True p] by simp
  next
    case False
    have p: "y # zs = [] \<or> last (y # zs) \<noteq> a" using "3.prems" by simp
    have L: "py_split2 a b cur ((x # y # zs) @ a # b # rest) =
        py_split2 a b (x # cur) ((y # zs) @ a # b # rest)"
      by (simp add: False)
    have R: "py_split2 a b cur (x # y # zs) = py_split2 a b (x # cur) (y # zs)"
      by (simp add: False)
    show ?thesis unfolding L R by (rule "3.IH"(2) [OF False p])
  qed
qed

lemma py_split2_length: "1 \<le> length (py_split2 a b cur xs)"
  by (induction a b cur xs rule: py_split2.induct) auto

lemma py_split2_one_block:
  "length (py_split2 a b cur xs) = 1 \<longleftrightarrow> \<not> py_contains2 a b xs"
proof (induction a b cur xs rule: py_split2.induct)
  case (3 a b cur x y zs)
  show ?case
  proof (cases "x = a \<and> y = b")
    case True
    have "1 \<le> length (py_split2 a b [] zs)" by (rule py_split2_length)
    with True show ?thesis by (cases "py_split2 a b [] zs") auto
  next
    case False
    have "py_split2 a b cur (x # y # zs) = py_split2 a b (x # cur) (y # zs)"
      by (simp add: False)
    moreover have "py_contains2 a b (x # y # zs) = py_contains2 a b (y # zs)"
      by (simp add: False)
    ultimately show ?thesis using "3.IH"(2) [OF False] by simp
  qed
qed simp_all

lemma py_split2_no_separator:
  "\<not> py_contains2 a b xs \<Longrightarrow> py_split2 a b cur xs = [rev cur @ xs]"
  by (induction a b cur xs rule: py_split2.induct) (auto split: if_splits)

lemma py_contains2_prefix:
  "a \<notin> set p \<Longrightarrow> py_contains2 a b (p @ q) = py_contains2 a b q"
proof (induction p)
  case Nil
  then show ?case by simp
next
  case (Cons c p)
  then have "c \<noteq> a" and IH: "py_contains2 a b (p @ q) = py_contains2 a b q" by auto
  show ?case
  proof (cases "p @ q")
    case Nil
    then show ?thesis by simp
  next
    case (Cons y zs)
    with \<open>c \<noteq> a\<close> IH show ?thesis by simp
  qed
qed

lemma py_contains2_member: "py_contains2 a b xs \<Longrightarrow> a \<in> set xs"
  by (induction a b xs rule: py_contains2.induct) auto

lemma py_split2_three_parts:
  assumes x: "x \<noteq> []" "last x \<noteq> 10" and y: "y = [] \<or> last y \<noteq> 10"
  shows "py_split2 10 10 [] (x @ 10 # 10 # y @ 10 # 10 # z) =
           py_split2 10 10 [] x @ py_split2 10 10 [] y @ py_split2 10 10 [] z"
proof -
  have "py_split2 10 10 [] (x @ 10 # 10 # (y @ 10 # 10 # z)) =
      py_split2 10 10 [] x @ py_split2 10 10 [] (y @ 10 # 10 # z)"
    using x by (intro py_split2_append) simp
  also have "py_split2 10 10 [] (y @ 10 # 10 # z) = py_split2 10 10 [] y @ py_split2 10 10 [] z"
    using y by (rule py_split2_append)
  finally show ?thesis by simp
qed

lemma three_blocks_iff:
  assumes x: "x \<noteq> []" "last x \<noteq> 10" and y: "y = [] \<or> last y \<noteq> 10"
  shows "length (py_split2 10 10 [] (x @ [10, 10] @ y @ [10, 10] @ z)) = 3 \<longleftrightarrow>
           \<not> py_contains2 10 10 x \<and> \<not> py_contains2 10 10 y \<and> \<not> py_contains2 10 10 z"
proof -
  let ?l = "\<lambda>p. length (py_split2 10 10 [] p)"
  have sum: "?l (x @ [10, 10] @ y @ [10, 10] @ z) = ?l x + ?l y + ?l z"
    by (simp add: py_split2_three_parts [OF assms])
  have ge: "1 \<le> ?l x" "1 \<le> ?l y" "1 \<le> ?l z" by (rule py_split2_length)+
  have "?l x + ?l y + ?l z = 3 \<longleftrightarrow> ?l x = 1 \<and> ?l y = 1 \<and> ?l z = 1"
    using ge by arith
  then show ?thesis unfolding sum by (simp only: py_split2_one_block)
qed

lemma three_blocks_are_the_parts:
  assumes x: "x \<noteq> []" "last x \<noteq> 10" and y: "y = [] \<or> last y \<noteq> 10"
    and "\<not> py_contains2 10 10 x" "\<not> py_contains2 10 10 y" "\<not> py_contains2 10 10 z"
  shows "py_split2 10 10 [] (x @ [10, 10] @ y @ [10, 10] @ z) = [x, y, z]"
  using assms(4-6) by (simp add: py_split2_three_parts [OF x y] py_split2_no_separator)

subsection \<open>Texts that do not end with a line feed\<close>

lemma py_strip_last: "py_strip s = [] \<or> \<not> py_isspace (last (py_strip s))"
proof -
  let ?d = "dropWhile py_isspace (rev (dropWhile py_isspace s))"
  have "?d = [] \<or> \<not> py_isspace (hd ?d)" by (rule dropWhile_head)
  then show ?thesis
    unfolding py_strip_def by (metis last_rev rev_is_Nil_conv)
qed

lemma py_strip_no_final_line_feed: "py_strip s = [] \<or> last (py_strip s) \<noteq> 10"
proof -
  have "py_isspace 10" by (simp add: py_isspace_def)
  then show ?thesis using py_strip_last [of s] by metis
qed

lemma extract_text_no_final_line_feed:
  assumes "extract_text result = Inr t"
  shows "t = [] \<or> last t \<noteq> 10"
proof -
  have "t = msg_no_content \<or> (\<exists>s. t = py_strip s)"
    using assms
    by (auto simp: extract_text_def bind_exn_def split: sum.splits if_splits
        elim!: py_strip_method.elims)
  moreover have "last msg_no_content \<noteq> 10" by (simp add: msg_no_content_def)
  ultimately show ?thesis using py_strip_no_final_line_feed by metis
qed

lemma gemini_try_no_final_line_feed:
  assumes "gemini_try p = Inr t"
  shows "t = [] \<or> last t \<noteq> 10"
  using assms extract_text_no_final_line_feed
  by (auto simp: gemini_try_def bind_exn_def split: post_result.splits sum.splits)

lemma gemini_except_no_final_line_feed:
  assumes "gemini_except e = Inr t"
  shows "last t \<noteq> 10"
  using assms
  by (cases e)
     (auto simp: msg_http_error_def msg_network_error_def msg_internal_error_def)

lemma call_gemini_api_no_final_line_feed:
  assumes "call_gemini_api API_KEY net prompt si sent = (Inr t, sent')"
  shows "t = [] \<or> last t \<noteq> 10"
proof (cases "API_KEY = None \<or> API_KEY = Some []")
  case True
  then have "t = msg_not_configured" using assms by (auto simp: call_gemini_api_def)
  then show ?thesis by (simp add: msg_not_configured_def ascii_def)
next
  case False
  then obtain key where k: "API_KEY = Some key" "key \<noteq> []" by (cases API_KEY) auto
  let ?r = "gemini_try (net (length sent) \<lparr>url = GEMINI_API_URL @ ascii ''?key='' @ key,
      contents_text = prompt, system_text = si\<rparr>)"
  show ?thesis
  proof (cases ?r)
    case (Inl e)
    then have "gemini_except e = Inr t"
      using assms k by (simp add: call_gemini_api_def Let_def)
    then show ?thesis using gemini_except_no_final_line_feed by blast
  next
    case (Inr s)
    then have "s = t" using assms k by (simp add: call_gemini_api_def Let_def)
    with Inr show ?thesis using gemini_try_no_final_line_feed by blast
  qed
qed

lemma no_line_feed_no_blank_line: "10 \<notin> set p \<Longrightarrow> \<not> py_contains2 10 10 p"
  using py_contains2_member by blast

section \<open>The claims\<close>

text \<open>
  Claim C1. \<open>call_gemini_api\<close> never raises past its boundary: for every credential,
  every behaviour of the network (the POST raising, an HTTP error status, a body that is
  not JSON, a JSON value of any shape, with or without the text field), every prompt and
  every system instruction, it returns a string.
\<close>

theorem call_gemini_api_never_raises:
  "\<exists>text sent'. call_gemini_api API_KEY net prompt system_instruction sent = (Inr text, sent')"
  by (rule call_gemini_api_returns)

text \<open>With a credential and the network down.\<close>

theorem call_gemini_api_never_raises_witness:
  "\<exists>text sent'. call_gemini_api (Some (ascii ''k'')) offline (ascii ''p'') (ascii ''s'') []
      = (Inr text, sent')"
  by (rule call_gemini_api_never_raises)

text \<open>
  Claim C2. For a request that reaches the dispatch (the level file was read and holds the
  requested level), the branch taken depends on the missing words only: when the list is
  empty the handler runs Strategy B (the reminder for a blank sentence, else
  \<open>analyze_user_sentence_text\<close>), otherwise Strategy A (\<open>generate_word_hints_text\<close>).
  The other fields of the request, the credential and the network are arbitrary.
\<close>

theorem strategy_selected_by_missing_words:
  assumes "find_level all_levels_data (get_default (req_level data) 1) = Inr (Some level_info)"
  shows "get_ai_feedback API_KEY net (Holds all_levels_data) (Some data) sent =
     (if get_default (req_missing_words data) [] = [] then
        if py_strip (get_default (req_user_sentence data) []) = [] then (ok msg_reminder, sent)
        else respond (analyze_user_sentence_text API_KEY net
               (py_strip (get_default (req_user_sentence data) []))
               (get_default (req_correct_words data) [])
               (py_strip (get_default (req_sentence_prompt data) [])) sent)
      else respond (generate_word_hints_text API_KEY net level_info
             (get_default (req_missing_words data) [])
             (get_default (req_incorrect_words data) [])
             (py_strip (get_default (req_user_sentence data) []))
             (get_default (req_correct_words data) [])
             (py_strip (get_default (req_sentence_prompt data) [])) sent))"
  using assms by (rule get_ai_feedback_dispatch)

text \<open>
  The sample request with three missing words is answered by Strategy A, the one with none
  by Strategy B.
\<close>

theorem strategy_selected_by_missing_words_witness:
  "find_level [level_1] 1 = Inr (Some level_1) \<and>
   get_ai_feedback None offline (Holds [level_1]) (Some request_all_missing) [] =
     respond (generate_word_hints_text None offline level_1
       [ascii ''jellyfish'', ascii ''crocodile'', ascii ''universe''] [ascii ''fish'']
       (ascii ''I see a fish.'')
       [ascii ''jellyfish'', ascii ''crocodile'', ascii ''universe''] (ascii ''I see ...'') []) \<and>
   get_ai_feedback None offline (Holds [level_1]) (Some request_all_found) [] =
     respond (analyze_user_sentence_text None offline (ascii ''I see a fish.'')
       [ascii ''jellyfish'', ascii ''crocodile'', ascii ''universe''] (ascii ''I see ...'') [])"
proof -
  have h: "find_level [level_1] 1 = Inr (Some level_1)"
    by (simp add: level_1_def)
  have a: "find_level [level_1] (get_default (req_level request_all_missing) 1) = Inr (Some level_1)"
    using h by (simp add: request_all_missing_def get_default_def)
  have b: "find_level [level_1] (get_default (req_level request_all_found) 1) = Inr (Some level_1)"
    using h by (simp add: request_all_found_def request_all_missing_def get_default_def)
  have nonempty: "ascii ''I see a fish.'' \<noteq> []"
    by (simp add: ascii_def)
  show ?thesis
    using h strategy_selected_by_missing_words [OF a, of None offline "[]"]
      strategy_selected_by_missing_words [OF b, of None offline "[]"] nonempty
    by (simp add: request_all_found_def request_all_missing_def get_default_def sample_strips)
qed

text \<open>
  Claim C3, amended. A request with missing words that reaches the dispatch is answered,
  with status 200, by three parts joined by two blank lines, in this order: the echo of the
  stripped sentence after the standard phrase, the text the client returned for the hint
  prompt, the text it returned for the critique prompt, whether these are answers of the
  model or fallback texts. Split at the blank lines, this text has exactly three blocks if
  and only if none of the sentence, the hint text and the critique text contains a blank
  line, and then the blocks are these three parts. No fallback text contains a blank line.
\<close>

theorem strategy_A_three_blocks:
  fixes data :: feedback_request
  defines "us \<equiv> py_strip (get_default (req_user_sentence data) [])"
    and "sp \<equiv> py_strip (get_default (req_sentence_prompt data) [])"
    and "mw \<equiv> get_default (req_missing_words data) []"
    and "iw \<equiv> get_default (req_incorrect_words data) []"
    and "cw \<equiv> get_default (req_correct_words data) []"
  assumes found: "find_level all_levels_data (get_default (req_level data) 1) = Inr (Some level_info)"
    and missing: "get_default (req_missing_words data) [] \<noteq> []"
  shows "(\<exists>ai_hints ai_critique sent1 sent2.
     call_gemini_api API_KEY net
       (prompt_hints iw
          (build_missing_words_prompts (get_default (tip level_info) []) mw 0
             (get_default (answer level_info) []) []))
       hints_system_instruction sent = (Inr ai_hints, sent1) \<and>
     call_gemini_api API_KEY net (critique_prompt us cw sp) critique_system_instruction sent1 =
       (Inr ai_critique, sent2) \<and>
     get_ai_feedback API_KEY net (Holds all_levels_data) (Some data) sent =
       (\<lparr>status = 200,
         feedback = ([24744, 36896, 30340, 21477, 23376, 26159, 65306] @ us) @ [10, 10] @
                    ai_hints @ [10, 10] @ ai_critique\<rparr>, sent2) \<and>
     (length (py_split2 10 10 []
        (([24744, 36896, 30340, 21477, 23376, 26159, 65306] @ us) @ [10, 10] @
         ai_hints @ [10, 10] @ ai_critique)) = 3 \<longleftrightarrow>
      \<not> py_contains2 10 10 us \<and> \<not> py_contains2 10 10 ai_hints \<and>
      \<not> py_contains2 10 10 ai_critique) \<and>
     (\<not> py_contains2 10 10 us \<and> \<not> py_contains2 10 10 ai_hints \<and>
      \<not> py_contains2 10 10 ai_critique \<longrightarrow>
      py_split2 10 10 []
        (([24744, 36896, 30340, 21477, 23376, 26159, 65306] @ us) @ [10, 10] @
         ai_hints @ [10, 10] @ ai_critique) =
      [[24744, 36896, 30340, 21477, 23376, 26159, 65306] @ us, ai_hints, ai_critique])) \<and>
   \<not> py_contains2 10 10 msg_not_configured \<and> \<not> py_contains2 10 10 msg_no_content \<and>
   \<not> py_contains2 10 10 (msg_http_error code) \<and> \<not> py_contains2 10 10 msg_network_error \<and>
   \<not> py_contains2 10 10 msg_internal_error"
proof -
  let ?echo = "[24744, 36896, 30340, 21477, 23376, 26159, 65306] @ us"
  obtain h c s1 s2 where
    1: "call_gemini_api API_KEY net
       (prompt_hints iw
          (build_missing_words_prompts (get_default (tip level_info) []) mw 0
             (get_default (answer level_info) []) []))
       hints_system_instruction sent = (Inr h, s1)" and
    2: "call_gemini_api API_KEY net (critique_prompt us cw sp) critique_system_instruction s1 =
       (Inr c, s2)" and
    3: "generate_word_hints_text API_KEY net level_info mw iw us cw sp sent =
          (Inr (echo_prefix @ us @ blank_line @ h @ blank_line @ c), s2)"
    using generate_word_hints_text_returns by blast
  have 4: "get_ai_feedback API_KEY net (Holds all_levels_data) (Some data) sent =
       (\<lparr>status = 200, feedback = ?echo @ [10, 10] @ h @ [10, 10] @ c\<rparr>, s2)"
    using missing 3
    unfolding get_ai_feedback_dispatch [OF found] us_def sp_def mw_def iw_def cw_def
    by (simp add: respond_def ok_def echo_prefix_def blank_line_def)
  have x: "?echo \<noteq> []" "last ?echo \<noteq> 10"
    using py_strip_no_final_line_feed [of "get_default (req_user_sentence data) []"]
    by (auto simp: us_def)
  have y: "h = [] \<or> last h \<noteq> 10"
    using 1 by (rule call_gemini_api_no_final_line_feed)
  have e: "py_contains2 10 10 ?echo = py_contains2 10 10 us"
    by (rule py_contains2_prefix) simp
  have 5: "length (py_split2 10 10 [] (?echo @ [10, 10] @ h @ [10, 10] @ c)) = 3 \<longleftrightarrow>
      \<not> py_contains2 10 10 us \<and> \<not> py_contains2 10 10 h \<and> \<not> py_contains2 10 10 c"
    using three_blocks_iff [OF x y, of c] unfolding e .
  have 6: "py_split2 10 10 [] (?echo @ [10, 10] @ h @ [10, 10] @ c) = [?echo, h, c]"
    if "\<not> py_contains2 10 10 us \<and> \<not> py_contains2 10 10 h \<and> \<not> py_contains2 10 10 c"
    using three_blocks_are_the_parts [OF x y, of c] that unfolding e by blast
  have 7: "\<not> py_contains2 10 10 msg_not_configured" "\<not> py_contains2 10 10 msg_no_content"
    "\<not> py_contains2 10 10 (msg_http_error code)" "\<not> py_contains2 10 10 msg_network_error"
    "\<not> py_contains2 10 10 msg_internal_error"
    using fallbacks_no_line_break py_contains2_member by blast+
  show ?thesis
    using 1 2 4 5 6 7 by blast
qed

text \<open>
  The sample request with three missing words, and a model that answers both prompts with
  two lines: a line feed inside a part, but no blank line, and the blocks are three.
\<close>

theorem strategy_A_three_blocks_witness:
  "find_level [level_1] (get_default (req_level request_all_missing) 1) = Inr (Some level_1) \<and>
   get_default (req_missing_words request_all_missing) [] \<noteq> [] \<and>
   fst (get_ai_feedback (Some (ascii ''k'')) (model_says two_lines) (Holds [level_1])
     (Some request_all_missing) []) =
     \<lparr>status = 200,
      feedback = ([24744, 36896, 30340, 21477, 23376, 26159, 65306] @ ascii ''I see a fish.'') @
                 [10, 10] @ two_lines @ [10, 10] @ two_lines\<rparr> \<and>
   py_split2 10 10 []
     (([24744, 36896, 30340, 21477, 23376, 26159, 65306] @ ascii ''I see a fish.'') @
      [10, 10] @ two_lines @ [10, 10] @ two_lines) =
     [[24744, 36896, 30340, 21477, 23376, 26159, 65306] @ ascii ''I see a fish.'',
      two_lines, two_lines]"
proof -
  let ?echo = "[24744, 36896, 30340, 21477, 23376, 26159, 65306] @ ascii ''I see a fish.''"
  have l: "find_level [level_1] (get_default (req_level request_all_missing) 1) = Inr (Some level_1)"
    by (simp add: request_all_missing_def get_default_def level_1_def)
  have m: "get_default (req_missing_words request_all_missing) [] \<noteq> []"
    by (simp add: request_all_missing_def get_default_def)
  have us: "py_strip (get_default (req_user_sentence request_all_missing) []) =
      ascii ''I see a fish.''"
    by (simp add: request_all_missing_def get_default_def sample_strips)
  have k: "ascii ''k'' \<noteq> []" and t: "two_lines \<noteq> []"
    by (simp_all add: ascii_def two_lines_def)
  have s: "py_strip two_lines = two_lines"
    by (simp add: py_strip_def py_isspace_def ascii_def two_lines_def)
  obtain h c s1 s2 where
    1: "call_gemini_api (Some (ascii ''k'')) (model_says two_lines)
       (prompt_hints (get_default (req_incorrect_words request_all_missing) [])
          (build_missing_words_prompts (get_default (tip level_1) [])
             (get_default (req_missing_words request_all_missing) []) 0
             (get_default (answer level_1) []) []))
       hints_system_instruction [] = (Inr h, s1)" and
    2: "call_gemini_api (Some (ascii ''k'')) (model_says two_lines)
       (critique_prompt (py_strip (get_default (req_user_sentence request_all_missing) []))
          (get_default (req_correct_words request_all_missing) [])
          (py_strip (get_default (req_sentence_prompt request_all_missing) [])))
       critique_system_instruction s1 = (Inr c, s2)" and
    3: "get_ai_feedback (Some (ascii ''k'')) (model_says two_lines) (Holds [level_1])
       (Some request_all_missing) [] =
       (\<lparr>status = 200,
         feedback = ([24744, 36896, 30340, 21477, 23376, 26159, 65306] @
                     py_strip (get_default (req_user_sentence request_all_missing) [])) @
                    [10, 10] @ h @ [10, 10] @ c\<rparr>, s2)" and
    4: "\<not> py_contains2 10 10 (py_strip (get_default (req_user_sentence request_all_missing) [])) \<and>
      \<not> py_contains2 10 10 h \<and> \<not> py_contains2 10 10 c \<longrightarrow>
      py_split2 10 10 []
        (([24744, 36896, 30340, 21477, 23376, 26159, 65306] @
          py_strip (get_default (req_user_sentence request_all_missing) [])) @ [10, 10] @
         h @ [10, 10] @ c) =
      [[24744, 36896, 30340, 21477, 23376, 26159, 65306] @
       py_strip (get_default (req_user_sentence request_all_missing) []), h, c]"
    using strategy_A_three_blocks [OF l m, of "Some (ascii ''k'')" "model_says two_lines" "[]"]
    by blast
  have h: "h = two_lines"
    using 1 by (simp add: call_gemini_api_model_says [OF k t] s)
  have c: "c = two_lines"
    using 2 by (simp add: call_gemini_api_model_says [OF k t] s)
  have n: "\<not> py_contains2 10 10 (ascii ''I see a fish.'')" "\<not> py_contains2 10 10 two_lines"
    by (simp_all add: ascii_def two_lines_def)
  show ?thesis
    using l m 3 4 n unfolding us h c by simp
qed

text \<open>
  Claim C3 as stated fails: the blocks are not exactly three when a part contains a blank
  line itself. Here the model answers both prompts with two paragraphs, and the feedback
  for the sample request with three missing words has five blank-line-separated blocks.
\<close>

theorem five_blocks_when_the_model_writes_paragraphs:
  "get_default (req_missing_words request_all_missing) [] \<noteq> [] \<and>
   fst (get_ai_feedback (Some (ascii ''k'')) (model_says two_paragraphs) (Holds [level_1])
     (Some request_all_missing) []) =
     \<lparr>status = 200,
      feedback = echo_prefix @ ascii ''I see a fish.'' @ blank_line @ two_paragraphs @
                 blank_line @ two_paragraphs\<rparr> \<and>
   py_split2 10 10 [] (echo_prefix @ ascii ''I see a fish.'' @ blank_line @ two_paragraphs @
                 blank_line @ two_paragraphs) =
     [echo_prefix @ ascii ''I see a fish.'', ascii ''Good try.'', ascii ''Keep going.'',
      ascii ''Good try.'', ascii ''Keep going.'']"
proof -
  have l: "find_level [level_1] (get_default (req_level request_all_missing) 1) = Inr (Some level_1)"
    by (simp add: request_all_missing_def get_default_def level_1_def)
  have k: "ascii ''k'' \<noteq> []" and t: "two_paragraphs \<noteq> []"
    by (simp_all add: ascii_def two_paragraphs_def)
  have s: "py_strip two_paragraphs = two_paragraphs"
    by (simp add: py_strip_def py_isspace_def ascii_def two_paragraphs_def)
  have m: "get_default (req_missing_words request_all_missing) [] \<noteq> []"
    by (simp add: request_all_missing_def get_default_def)
  have "fst (get_ai_feedback (Some (ascii ''k'')) (model_says two_paragraphs) (Holds [level_1])
     (Some request_all_missing) []) =
     \<lparr>status = 200,
      feedback = echo_prefix @ ascii ''I see a fish.'' @ blank_line @ two_paragraphs @
                 blank_line @ two_paragraphs\<rparr>"
    using m
    by (simp add: get_ai_feedback_dispatch [OF l] generate_word_hints_text_def Let_def
        call_gemini_api_model_says [OF k t] s respond_def ok_def)
       (simp add: request_all_missing_def get_default_def sample_strips)
  moreover have "py_split2 10 10 [] (echo_prefix @ ascii ''I see a fish.'' @ blank_line @
       two_paragraphs @ blank_line @ two_paragraphs) =
     [echo_prefix @ ascii ''I see a fish.'', ascii ''Good try.'', ascii ''Keep going.'',
      ascii ''Good try.'', ascii ''Keep going.'']"
    by (simp add: echo_prefix_def blank_line_def two_paragraphs_def ascii_def)
  ultimately show ?thesis using m by blast
qed

text \<open>
  Claim C4, amended. For a request with no missing words and a blank sentence (empty, or
  whitespace only), no POST is made, whatever the state of the level file; and when the
  file holds the requested level, the response is the fixed reminder, verbatim, with
  status 200.
\<close>

theorem blank_sentence_short_circuit:
  assumes "get_default (req_missing_words data) [] = []"
    and "\<forall>c \<in> set (get_default (req_user_sentence data) []). py_isspace c"
  shows "snd (get_ai_feedback API_KEY net file (Some data) sent) = sent \<and>
     (\<forall>all_levels_data level_info.
        file = Holds all_levels_data \<and>
        find_level all_levels_data (get_default (req_level data) 1) = Inr (Some level_info) \<longrightarrow>
        fst (get_ai_feedback API_KEY net file (Some data) sent) =
          \<lparr>status = 200, feedback = msg_reminder\<rparr>)"
proof -
  have blank: "py_strip (get_default (req_user_sentence data) []) = []"
    using assms(2) by (rule py_strip_blank)
  show ?thesis
    using assms(1) blank
    by (cases "file")
       (auto simp: get_ai_feedback_def Let_def ok_def split: sum.splits option.splits)
qed

text \<open>
  The sample request with a sentence of three spaces, with a credential and a model that
  would answer: the reminder is returned and nothing is sent.
\<close>

theorem blank_sentence_short_circuit_witness:
  "get_default (req_missing_words request_blank) [] = [] \<and>
   list_all py_isspace (get_default (req_user_sentence request_blank) []) \<and>
   find_level [level_1] (get_default (req_level request_blank) 1) = Inr (Some level_1) \<and>
   get_ai_feedback (Some (ascii ''k'')) (model_says (ascii ''hint'')) (Holds [level_1])
     (Some request_blank) [] = (\<lparr>status = 200, feedback = msg_reminder\<rparr>, [])"
proof -
  have m: "get_default (req_missing_words request_blank) [] = []"
    by (simp add: request_blank_def request_all_found_def request_all_missing_def get_default_def)
  have s: "get_default (req_user_sentence request_blank) [] = ascii ''   ''"
    by (simp add: request_blank_def get_default_def)
  have w: "\<forall>c \<in> set (get_default (req_user_sentence request_blank) []). py_isspace c"
    unfolding s by (simp add: ascii_def py_isspace_def)
  have l: "find_level [level_1] (get_default (req_level request_blank) 1) = Inr (Some level_1)"
    by (simp add: request_blank_def request_all_found_def request_all_missing_def get_default_def
        level_1_def)
  show ?thesis
    using m w l
      blank_sentence_short_circuit [OF m w, of "Some (ascii ''k'')" "model_says (ascii ''hint'')"
        "Holds [level_1]" "[]"]
    by (simp add: list_all_iff prod_eq_iff)
qed

text \<open>
  Claim C4 as stated fails: the same request for level 2, which the file does not hold, is
  answered by the "level not found" text (lines 212 to 214 run before the dispatch), not by
  the reminder.
\<close>

theorem blank_sentence_unknown_level:
  "req_missing_words (request_blank\<lparr>req_level := Some 2\<rparr>) = Some [] \<and>
   req_user_sentence (request_blank\<lparr>req_level := Some 2\<rparr>) = Some (ascii ''   '') \<and>
   get_ai_feedback (Some (ascii ''k'')) (model_says (ascii ''hint'')) (Holds [level_1])
     (Some (request_blank\<lparr>req_level := Some 2\<rparr>)) [] =
     (\<lparr>status = 200, feedback = level_not_found_1 @ ascii ''2'' @ level_not_found_2\<rparr>, []) \<and>
   level_not_found_1 @ ascii ''2'' @ level_not_found_2 \<noteq> msg_reminder"
proof -
  have s: "str_of_int 2 = ascii ''2''"
    by (simp add: str_of_int_def str_of_nat.simps ascii_def)
  have "find_level [level_1] 2 = Inr None"
    by (simp add: level_1_def)
  then have "get_ai_feedback (Some (ascii ''k'')) (model_says (ascii ''hint'')) (Holds [level_1])
     (Some (request_blank\<lparr>req_level := Some 2\<rparr>)) [] =
     (\<lparr>status = 200, feedback = level_not_found_1 @ ascii ''2'' @ level_not_found_2\<rparr>, [])"
    by (simp add: get_ai_feedback_def Let_def get_default_def ok_def msg_level_not_found_def s)
  moreover have "level_not_found_1 @ ascii ''2'' @ level_not_found_2 \<noteq> msg_reminder"
    by (simp add: level_not_found_1_def msg_reminder_def)
  ultimately show ?thesis
    by (simp add: request_blank_def request_all_found_def request_all_missing_def)
qed

text \<open>
  Claim C5. While the credential is absent (\<open>API_KEY\<close> is \<open>None\<close>, or the empty string,
  which \<open>not API_KEY\<close> treats alike), the client returns the fixed "AI service not
  configured" text and makes no POST: the list of outbound calls is unchanged.
\<close>

theorem call_gemini_api_without_credential:
  assumes "API_KEY = None \<or> API_KEY = Some []"
  shows "call_gemini_api API_KEY net prompt system_instruction sent = (Inr msg_not_configured, sent)"
  using assms by (auto simp: call_gemini_api_def)

text \<open>No credential, and a model that would answer: nothing is sent.\<close>

theorem call_gemini_api_without_credential_witness:
  "call_gemini_api None (model_says (ascii ''hint'')) (ascii ''p'') (ascii ''s'') [] =
     (Inr msg_not_configured, [])"
  using call_gemini_api_without_credential [of None] by simp

text \<open>
  Claim C6. When no entry of the level file has the requested level (every entry has a
  level, and it is another one), the response has status 200, its text is the "not found"
  text around the requested level in decimal, and no strategy runs: nothing is sent.
\<close>

theorem unknown_level_reported:
  assumes "\<forall>item \<in> set all_levels_data. \<exists>l. level item = Some l \<and> l \<noteq> get_default (req_level data) 1"
  shows "get_ai_feedback API_KEY net (Holds all_levels_data) (Some data) sent =
           (\<lparr>status = 200,
             feedback = level_not_found_1 @ str_of_int (get_default (req_level data) 1) @
                        level_not_found_2\<rparr>, sent)"
proof -
  have "find_level all_levels_data (get_default (req_level data) 1) = Inr None"
    using assms by (simp add: find_level_none)
  then show ?thesis
    by (simp add: get_ai_feedback_def Let_def ok_def msg_level_not_found_def)
qed

text \<open>Level 7 is asked of a file that holds level 1 only.\<close>

theorem unknown_level_reported_witness:
  "level level_1 = Some 1 \<and>
   get_default (req_level (request_all_missing\<lparr>req_level := Some 7\<rparr>)) 1 = 7 \<and>
   get_ai_feedback (Some (ascii ''k'')) (model_says (ascii ''hint'')) (Holds [level_1])
     (Some (request_all_missing\<lparr>req_level := Some 7\<rparr>)) [] =
     (\<lparr>status = 200, feedback = level_not_found_1 @ ascii ''7'' @ level_not_found_2\<rparr>, [])"
proof -
  have h: "\<forall>item \<in> set [level_1]. \<exists>l. level item = Some l \<and>
             l \<noteq> get_default (req_level (request_all_missing\<lparr>req_level := Some 7\<rparr>)) 1"
    by (simp add: level_1_def get_default_def)
  have s: "str_of_int 7 = ascii ''7''"
    by (simp add: str_of_int_def str_of_nat.simps ascii_def)
  show ?thesis
    using unknown_level_reported [OF h] s by (simp add: level_1_def get_default_def)
qed




text \<open>
  Claim C8. The loop of Strategy A builds one line for each required word of the level that
  is among the missing words, in the order of the level's words: the text "word: " (in
  Chinese), the word, " (category: " (in Chinese), the category and ")", where the category
  is the one at the same position of the level's category list, or the default category
  "object" (U+7269 U+4EF6) when that list has no such position. With a credential, these
  lines, joined by ", ", end the hint prompt, which is the first POST of Strategy A.
\<close>

theorem hint_request_lines:
  "build_missing_words_prompts tips missing_words 0 correct_answers [] =
     map (\<lambda>i. [21934, 23383, 58, 32] @ correct_answers ! i @
               [32, 40, 39006, 21029, 58, 32] @
               (if i < length tips then tips ! i else [29289, 20214]) @ [41])
       (filter (\<lambda>i. correct_answers ! i \<in> set missing_words) [0..<length correct_answers]) \<and>
   (key \<noteq> [] \<and> tips = get_default (tip level_info) [] \<and>
    correct_answers = get_default (answer level_info) [] \<longrightarrow>
    (\<exists>rest. snd (generate_word_hints_text (Some key) net level_info missing_words incorrect_words
                  user_sentence correct_words sentence_prompt sent) =
       sent @
       \<lparr>url = GEMINI_API_URL @ ascii ''?key='' @ key,
        contents_text =
          prompt_hints_1 @
          (if incorrect_words \<noteq> [] then py_join [44, 32] incorrect_words else [28961]) @
          prompt_hints_rules @ prompt_hints_join_rule @ prompt_hints_list_head @
          py_join [44, 32]
            (map (\<lambda>i. [21934, 23383, 58, 32] @ correct_answers ! i @
                      [32, 40, 39006, 21029, 58, 32] @
                      (if i < length tips then tips ! i else [29289, 20214]) @ [41])
               (filter (\<lambda>i. correct_answers ! i \<in> set missing_words)
                  [0..<length correct_answers])) @
          [12290],
        system_text = hints_system_instruction\<rparr> # rest))"
proof (intro conjI impI)
  have wp: "word_prompt w t = [21934, 23383, 58, 32] @ w @ [32, 40, 39006, 21029, 58, 32] @ t @ [41]"
    for w t
    by (simp add: word_prompt_def ascii_def)
  show lines: "build_missing_words_prompts tips missing_words 0 correct_answers [] =
     map (\<lambda>i. [21934, 23383, 58, 32] @ correct_answers ! i @
               [32, 40, 39006, 21029, 58, 32] @
               (if i < length tips then tips ! i else [29289, 20214]) @ [41])
       (filter (\<lambda>i. correct_answers ! i \<in> set missing_words) [0..<length correct_answers])"
    for tips correct_answers
    by (simp add: build_missing_words_prompts_eq wp default_tip_def)
  assume a: "key \<noteq> [] \<and> tips = get_default (tip level_info) [] \<and>
    correct_answers = get_default (answer level_info) []"
  let ?p1 = "prompt_hints incorrect_words
      (build_missing_words_prompts tips missing_words 0 correct_answers [])"
  let ?p2 = "critique_prompt user_sentence correct_words sentence_prompt"
  obtain h c s1 s2 where
    1: "call_gemini_api (Some key) net ?p1 hints_system_instruction sent = (Inr h, s1)" and
    2: "call_gemini_api (Some key) net ?p2 critique_system_instruction s1 = (Inr c, s2)" and
    3: "generate_word_hints_text (Some key) net level_info missing_words incorrect_words
          user_sentence correct_words sentence_prompt sent =
          (Inr (echo_prefix @ user_sentence @ blank_line @ h @ blank_line @ c), s2)"
    using generate_word_hints_text_returns [of "Some key" net incorrect_words level_info] a
    by blast
  have s1: "s1 = sent @ [\<lparr>url = GEMINI_API_URL @ ascii ''?key='' @ key, contents_text = ?p1,
              system_text = hints_system_instruction\<rparr>]"
    using call_gemini_api_sent_with_key [of key net ?p1 hints_system_instruction sent] a 1
    by simp
  have s2: "s2 = s1 @ [\<lparr>url = GEMINI_API_URL @ ascii ''?key='' @ key, contents_text = ?p2,
              system_text = critique_system_instruction\<rparr>]"
    using call_gemini_api_sent_with_key [of key net ?p2 critique_system_instruction s1] a 2
    by simp
  have p1: "?p1 =
          prompt_hints_1 @
          (if incorrect_words \<noteq> [] then py_join [44, 32] incorrect_words else [28961]) @
          prompt_hints_rules @ prompt_hints_join_rule @ prompt_hints_list_head @
          py_join [44, 32]
            (map (\<lambda>i. [21934, 23383, 58, 32] @ correct_answers ! i @
                      [32, 40, 39006, 21029, 58, 32] @
                      (if i < length tips then tips ! i else [29289, 20214]) @ [41])
               (filter (\<lambda>i. correct_answers ! i \<in> set missing_words)
                  [0..<length correct_answers])) @
          [12290]"
    unfolding lines [of tips correct_answers]
    by (simp add: prompt_hints_def ascii_def no_incorrect_words_def)
  show "\<exists>rest. snd (generate_word_hints_text (Some key) net level_info missing_words
                  incorrect_words user_sentence correct_words sentence_prompt sent) =
       sent @
       \<lparr>url = GEMINI_API_URL @ ascii ''?key='' @ key,
        contents_text =
          prompt_hints_1 @
          (if incorrect_words \<noteq> [] then py_join [44, 32] incorrect_words else [28961]) @
          prompt_hints_rules @ prompt_hints_join_rule @ prompt_hints_list_head @
          py_join [44, 32]
            (map (\<lambda>i. [21934, 23383, 58, 32] @ correct_answers ! i @
                      [32, 40, 39006, 21029, 58, 32] @
                      (if i < length tips then tips ! i else [29289, 20214]) @ [41])
               (filter (\<lambda>i. correct_answers ! i \<in> set missing_words)
                  [0..<length correct_answers])) @
          [12290],
        system_text = hints_system_instruction\<rparr> # rest"
    using 3 s1 s2 unfolding p1 by simp
qed

text \<open>
  Two categories for three words: the first word gets its category, the third the default,
  and the second, which is not missing, gets no line.
\<close>

theorem hint_request_lines_witness:
  "get_default (tip level_1) [] = [ascii ''animal'', ascii ''animal''] \<and>
   get_default (answer level_1) [] = [ascii ''jellyfish'', ascii ''crocodile'', ascii ''universe''] \<and>
   build_missing_words_prompts [ascii ''animal'', ascii ''animal'']
     [ascii ''universe'', ascii ''jellyfish''] 0
     [ascii ''jellyfish'', ascii ''crocodile'', ascii ''universe''] [] =
   [[21934, 23383] @ ascii '': jellyfish ('' @ [39006, 21029] @ ascii '': animal)'',
    [21934, 23383] @ ascii '': universe ('' @ [39006, 21029] @ ascii '': '' @ [29289, 20214] @
      ascii '')''] \<and>
   (\<exists>rest. snd (generate_word_hints_text (Some (ascii ''k'')) offline level_1
                 [ascii ''universe'', ascii ''jellyfish''] [] (ascii ''I see.'') []
                 (ascii ''I see ...'') []) =
      \<lparr>url = GEMINI_API_URL @ ascii ''?key=k'',
       contents_text =
         prompt_hints_1 @ [28961] @ prompt_hints_rules @ prompt_hints_join_rule @
         prompt_hints_list_head @
         [21934, 23383] @ ascii '': jellyfish ('' @ [39006, 21029] @ ascii '': animal), '' @
         [21934, 23383] @ ascii '': universe ('' @ [39006, 21029] @ ascii '': '' @
         [29289, 20214] @ ascii '')'' @ [12290],
       system_text = hints_system_instruction\<rparr> # rest)"
proof -
  let ?tips = "[ascii ''animal'', ascii ''animal'']"
  let ?answers = "[ascii ''jellyfish'', ascii ''crocodile'', ascii ''universe'']"
  let ?missing = "[ascii ''universe'', ascii ''jellyfish'']"
  have t: "get_default (tip level_1) [] = ?tips" and a: "get_default (answer level_1) [] = ?answers"
    by (simp_all add: level_1_def get_default_def)
  have k: "ascii ''k'' \<noteq> []" by (simp add: ascii_def)
  have f: "map (\<lambda>i. [21934, 23383, 58, 32] @ ?answers ! i @ [32, 40, 39006, 21029, 58, 32] @
                 (if i < length ?tips then ?tips ! i else [29289, 20214]) @ [41])
       (filter (\<lambda>i. ?answers ! i \<in> set ?missing) [0..<length ?answers]) =
     [[21934, 23383] @ ascii '': jellyfish ('' @ [39006, 21029] @ ascii '': animal)'',
      [21934, 23383] @ ascii '': universe ('' @ [39006, 21029] @ ascii '': '' @ [29289, 20214] @
        ascii '')'']"
    by (simp add: ascii_def upt_conv_Cons)
  note inst = hint_request_lines [of ?tips ?missing ?answers "ascii ''k''" level_1 offline "[]"
      "ascii ''I see.''" "[]" "ascii ''I see ...''" "[]"]
  show ?thesis
    using inst t a k unfolding f by (simp add: ascii_def)
qed

text \<open>
  Claim C9, amended. The composer inserts no separator into the generated hints, whatever
  the number of missing words: the feedback is the echo, the client's hint text and the
  client's critique text, unchanged, so the Chinese semicolon (U+FF1B, 65307) occurs in it
  exactly as often as in the sentence and these two texts. Joining the clues is asked of
  the model: every hint prompt carries the rule "if there are several words, join all the
  clues with the Chinese semicolon", before the list of lines. The lines of that list are
  joined with a comma and a space: one line has no separator, three lines have two.
\<close>

theorem composer_inserts_no_separator:
  "\<exists>ai_hints ai_critique sent1 sent2 text.
     call_gemini_api API_KEY net
       (prompt_hints incorrect_words
          (build_missing_words_prompts (get_default (tip level_info) []) missing_words 0
             (get_default (answer level_info) []) []))
       hints_system_instruction sent = (Inr ai_hints, sent1) \<and>
     call_gemini_api API_KEY net (critique_prompt user_sentence correct_words sentence_prompt)
       critique_system_instruction sent1 = (Inr ai_critique, sent2) \<and>
     generate_word_hints_text API_KEY net level_info missing_words incorrect_words user_sentence
       correct_words sentence_prompt sent = (Inr text, sent2) \<and>
     text = echo_prefix @ user_sentence @ blank_line @ ai_hints @ blank_line @ ai_critique \<and>
     count_list text 65307 =
       count_list user_sentence 65307 + count_list ai_hints 65307 + count_list ai_critique 65307 \<and>
     (\<exists>before. prompt_hints incorrect_words lines =
        before @ prompt_hints_join_rule @ prompt_hints_list_head @
        py_join (ascii '', '') lines @ [12290]) \<and>
     65307 \<in> set prompt_hints_join_rule \<and>
     py_join (ascii '', '') [l1] = l1 \<and>
     py_join (ascii '', '') [l1, l2, l3] = l1 @ ascii '', '' @ l2 @ ascii '', '' @ l3"
proof -
  obtain h c s1 s2 where
    1: "call_gemini_api API_KEY net
       (prompt_hints incorrect_words
          (build_missing_words_prompts (get_default (tip level_info) []) missing_words 0
             (get_default (answer level_info) []) []))
       hints_system_instruction sent = (Inr h, s1)" and
    2: "call_gemini_api API_KEY net (critique_prompt user_sentence correct_words sentence_prompt)
       critique_system_instruction s1 = (Inr c, s2)" and
    3: "generate_word_hints_text API_KEY net level_info missing_words incorrect_words
          user_sentence correct_words sentence_prompt sent =
          (Inr (echo_prefix @ user_sentence @ blank_line @ h @ blank_line @ c), s2)"
    using generate_word_hints_text_returns by blast
  have 4: "count_list (echo_prefix @ user_sentence @ blank_line @ h @ blank_line @ c) 65307 =
       count_list user_sentence 65307 + count_list h 65307 + count_list c 65307"
    by (simp add: echo_prefix_def blank_line_def)
  have 5: "\<exists>before. prompt_hints incorrect_words lines =
        before @ prompt_hints_join_rule @ prompt_hints_list_head @
        py_join (ascii '', '') lines @ [12290]"
    unfolding prompt_hints_def by (metis append.assoc)
  have 6: "65307 \<in> set prompt_hints_join_rule"
    by (simp add: prompt_hints_join_rule_def)
  show ?thesis
    using 1 2 3 4 5 6 py_join_lines by blast
qed

text \<open>The sample level with three missing words, and a model that answers with one clue.\<close>

theorem composer_inserts_no_separator_witness:
  "\<exists>ai_hints ai_critique sent1 sent2 text.
     call_gemini_api (Some (ascii ''k'')) (model_says one_clue)
       (prompt_hints [ascii ''fish'']
          (build_missing_words_prompts (get_default (tip level_1) [])
             [ascii ''jellyfish'', ascii ''crocodile'', ascii ''universe''] 0
             (get_default (answer level_1) []) []))
       hints_system_instruction [] = (Inr ai_hints, sent1) \<and>
     call_gemini_api (Some (ascii ''k'')) (model_says one_clue)
       (critique_prompt (ascii ''I see a fish.'') [] (ascii ''I see ...''))
       critique_system_instruction sent1 = (Inr ai_critique, sent2) \<and>
     generate_word_hints_text (Some (ascii ''k'')) (model_says one_clue) level_1
       [ascii ''jellyfish'', ascii ''crocodile'', ascii ''universe''] [ascii ''fish'']
       (ascii ''I see a fish.'') [] (ascii ''I see ...'') [] = (Inr text, sent2) \<and>
     text = echo_prefix @ ascii ''I see a fish.'' @ blank_line @ ai_hints @ blank_line @
            ai_critique \<and>
     count_list text 65307 =
       count_list (ascii ''I see a fish.'') 65307 + count_list ai_hints 65307 +
       count_list ai_critique 65307 \<and>
     (\<exists>before. prompt_hints [ascii ''fish''] [] =
        before @ prompt_hints_join_rule @ prompt_hints_list_head @
        py_join (ascii '', '') [] @ [12290]) \<and>
     65307 \<in> set prompt_hints_join_rule \<and>
     py_join (ascii '', '') [ascii ''a''] = ascii ''a'' \<and>
     py_join (ascii '', '') [ascii ''a'', ascii ''b'', ascii ''c''] =
       ascii ''a'' @ ascii '', '' @ ascii ''b'' @ ascii '', '' @ ascii ''c''"
  by (rule composer_inserts_no_separator)

text \<open>
  Claim C9 as stated fails: for the sample request with three missing words and a model
  that answers with a single clue, the feedback contains no separator at all.
\<close>

theorem no_separator_for_three_missing_words:
  "length (get_default (req_missing_words request_all_missing) []) = 3 \<and>
   fst (get_ai_feedback (Some (ascii ''k'')) (model_says one_clue) (Holds [level_1])
     (Some request_all_missing) []) =
     \<lparr>status = 200,
      feedback = echo_prefix @ ascii ''I see a fish.'' @ blank_line @ one_clue @ blank_line @
                 one_clue\<rparr> \<and>
   65307 \<notin> set (echo_prefix @ ascii ''I see a fish.'' @ blank_line @ one_clue @ blank_line @
                 one_clue)"
proof -
  have l: "find_level [level_1] (get_default (req_level request_all_missing) 1) = Inr (Some level_1)"
    by (simp add: request_all_missing_def get_default_def level_1_def)
  have k: "ascii ''k'' \<noteq> []" and t: "one_clue \<noteq> []"
    by (simp_all add: ascii_def one_clue_def)
  have s: "py_strip one_clue = one_clue"
    by (simp add: py_strip_def py_isspace_def ascii_def one_clue_def)
  have m: "length (get_default (req_missing_words request_all_missing) []) = 3"
    by (simp add: request_all_missing_def get_default_def)
  then have m': "get_default (req_missing_words request_all_missing) [] \<noteq> []"
    by auto
  have "fst (get_ai_feedback (Some (ascii ''k'')) (model_says one_clue) (Holds [level_1])
     (Some request_all_missing) []) =
     \<lparr>status = 200,
      feedback = echo_prefix @ ascii ''I see a fish.'' @ blank_line @ one_clue @ blank_line @
                 one_clue\<rparr>"
    using m'
    by (simp add: get_ai_feedback_dispatch [OF l] generate_word_hints_text_def Let_def
        call_gemini_api_model_says [OF k t] s respond_def ok_def)
       (simp add: request_all_missing_def get_default_def sample_strips)
  moreover have "65307 \<notin> set (echo_prefix @ ascii ''I see a fish.'' @ blank_line @ one_clue @
      blank_line @ one_clue)"
    by (simp add: echo_prefix_def blank_line_def one_clue_def ascii_def)
  ultimately show ?thesis using m by blast
qed

text \<open>
  Claim C10. The handler uses the sentence and the sentence pattern only stripped: the
  response and the POSTs are those of the request whose two fields are already stripped; a
  whitespace-only sentence is handled as the empty and as the absent one; when a strategy
  answers, its text begins with the standard phrase and the stripped sentence; and every
  prompt sent is the hint prompt (which holds neither field) or the critique or analysis
  prompt built from the stripped fields.
\<close>

theorem sentence_fields_stripped_before_use:
  "get_ai_feedback API_KEY net file (Some data) sent =
     get_ai_feedback API_KEY net file
       (Some (data\<lparr>req_user_sentence := Some (py_strip (get_default (req_user_sentence data) [])),
                    req_sentence_prompt :=
                      Some (py_strip (get_default (req_sentence_prompt data) []))\<rparr>)) sent \<and>
   ((\<forall>c \<in> set ws. py_isspace c) \<longrightarrow>
      get_ai_feedback API_KEY net file (Some (data\<lparr>req_user_sentence := Some ws\<rparr>)) sent =
      get_ai_feedback API_KEY net file (Some (data\<lparr>req_user_sentence := Some []\<rparr>)) sent \<and>
      get_ai_feedback API_KEY net file (Some (data\<lparr>req_user_sentence := Some ws\<rparr>)) sent =
      get_ai_feedback API_KEY net file (Some (data\<lparr>req_user_sentence := None\<rparr>)) sent) \<and>
   (\<forall>all_levels_data level_info.
      file = Holds all_levels_data \<and>
      find_level all_levels_data (get_default (req_level data) 1) = Inr (Some level_info) \<and>
      \<not> (get_default (req_missing_words data) [] = [] \<and>
         py_strip (get_default (req_user_sentence data) []) = []) \<longrightarrow>
      (\<exists>rest. fst (get_ai_feedback API_KEY net file (Some data) sent) =
         \<lparr>status = 200,
          feedback = echo_prefix @ py_strip (get_default (req_user_sentence data) []) @
                     blank_line @ rest\<rparr>)) \<and>
   (\<exists>new. snd (get_ai_feedback API_KEY net file (Some data) sent) = sent @ new \<and>
     (\<forall>q \<in> set new.
        (\<exists>lines. contents_text q = prompt_hints (get_default (req_incorrect_words data) []) lines) \<or>
        contents_text q =
          critique_prompt (py_strip (get_default (req_user_sentence data) []))
            (get_default (req_correct_words data) [])
            (py_strip (get_default (req_sentence_prompt data) [])) \<or>
        contents_text q =
          analysis_prompt (py_strip (get_default (req_user_sentence data) []))
            (get_default (req_correct_words data) [])
            (py_strip (get_default (req_sentence_prompt data) []))))"
  (is "?stripped \<and> ?blank \<and> ?echo \<and> ?prompts")
proof (intro conjI)
  show ?stripped by (rule get_ai_feedback_stripped_request)
  show ?blank using get_ai_feedback_blank_sentence by blast
  show ?echo using get_ai_feedback_echo by blast
  show ?prompts by (rule get_ai_feedback_prompts)
qed

text \<open>
  Three spaces are handled as the empty sentence, and the sample sentence, sent with spaces
  around it, is echoed without them.
\<close>

theorem sentence_fields_stripped_before_use_witness:
  "list_all py_isspace (ascii ''   '') \<and>
   get_ai_feedback None offline (Holds [level_1])
     (Some (request_all_found\<lparr>req_user_sentence := Some (ascii ''   '')\<rparr>)) [] =
   get_ai_feedback None offline (Holds [level_1])
     (Some (request_all_found\<lparr>req_user_sentence := Some []\<rparr>)) [] \<and>
   req_user_sentence request_all_missing = Some (ascii ''  I see a fish. '') \<and>
   (\<exists>rest. fst (get_ai_feedback None offline (Holds [level_1]) (Some request_all_missing) []) =
      \<lparr>status = 200, feedback = echo_prefix @ ascii ''I see a fish.'' @ blank_line @ rest\<rparr>)"
proof -
  have w: "\<forall>c \<in> set (ascii ''   ''). py_isspace c"
    by (simp add: ascii_def py_isspace_def)
  have l: "find_level [level_1] (get_default (req_level request_all_missing) 1) = Inr (Some level_1)"
    by (simp add: request_all_missing_def get_default_def level_1_def)
  have m: "\<not> (get_default (req_missing_words request_all_missing) [] = [] \<and>
         py_strip (get_default (req_user_sentence request_all_missing) []) = [])"
    by (simp add: request_all_missing_def get_default_def)
  have s: "req_user_sentence request_all_missing = Some (ascii ''  I see a fish. '')"
    by (simp add: request_all_missing_def)
  have "get_ai_feedback None offline (Holds [level_1])
     (Some (request_all_found\<lparr>req_user_sentence := Some (ascii ''   '')\<rparr>)) [] =
   get_ai_feedback None offline (Holds [level_1])
     (Some (request_all_found\<lparr>req_user_sentence := Some []\<rparr>)) []"
    using w sentence_fields_stripped_before_use [of None offline "Holds [level_1]"
        request_all_found "[]" "ascii ''   ''"]
    by blast
  moreover have "\<exists>rest. fst (get_ai_feedback None offline (Holds [level_1])
      (Some request_all_missing) []) =
      \<lparr>status = 200, feedback = echo_prefix @ ascii ''I see a fish.'' @ blank_line @ rest\<rparr>"
  proof -
    have us: "py_strip (get_default (req_user_sentence request_all_missing) []) =
        ascii ''I see a fish.''"
      by (simp add: s get_default_def sample_strips)
    have "\<exists>rest. fst (get_ai_feedback None offline (Holds [level_1])
        (Some request_all_missing) []) =
        \<lparr>status = 200,
         feedback = echo_prefix @ py_strip (get_default (req_user_sentence request_all_missing) []) @
                    blank_line @ rest\<rparr>"
      using l m sentence_fields_stripped_before_use [of None offline "Holds [level_1]"
          request_all_missing "[]" "[]"]
      by blast
    then show ?thesis unfolding us .
  qed
  ultimately show ?thesis using w s by (simp add: list_all_iff)
qed

end
